theory Spec2Isabelle
  imports Main "HOL-Library.Sublist"
begin

section \<open>JavaScript values and built-ins used by main.ts\<close>

text \<open>
  TypeScript's types are erased when the action runs, and the model's answer reaches the
  code through \<open>JSON.parse\<close> as a value of type \<open>any\<close>. The values are therefore
  modelled as they are at run time: JSON values, with \<open>undefined\<close> as \<open>None\<close> of
  \<open>json option\<close>. Strings are lists of characters (code units below 256).

  A Number is \<open>NaN\<close>, an integer \<open>Num n\<close> (exactly representable: magnitude at most
  \<open>2 ^ 53\<close>; \<open>Num 0\<close> stands for both zeros, which the code never tells apart), or
  \<open>Other\<close>: some number that is neither \<open>NaN\<close> nor zero and whose value the model
  does not compute (fractions, infinities, integers above \<open>2 ^ 53\<close>).
\<close>

datatype jsnumber = NaN | Num int | Other

datatype json =
    JNull
  | JBool bool
  | JNum jsnumber
  | JStr string
  | JArr "json list"
  | JObj "(string \<times> json) list"

datatype error =
    TypeError
  | RequestError
  | ReadError
  | MissingContent string

subsection \<open>String.prototype.trim\<close>

definition is_ws :: "char \<Rightarrow> bool" where
  \<comment> \<open>WhiteSpace and LineTerminator code units below 256: TAB, LF, VT, FF, CR, SP, NBSP.\<close>
  "is_ws c = (c \<in> set [CHR 0x09, CHR 0x0A, CHR 0x0B, CHR 0x0C, CHR 0x0D, CHR 0x20, CHR 0xA0])"

definition trim :: "string \<Rightarrow> string" where
  "trim s = rev (dropWhile is_ws (rev (dropWhile is_ws s)))"

subsection \<open>Number(string): the StringToNumber conversion\<close>

definition is_digit :: "char \<Rightarrow> bool" where
  "is_digit c = (c \<in> set ''0123456789'')"

definition is_hex_digit :: "char \<Rightarrow> bool" where
  "is_hex_digit c = (c \<in> set ''0123456789abcdefABCDEF'')"

definition digit_val :: "char \<Rightarrow> int" where
  "digit_val c =
     (case map_of (zip ''0123456789abcdefABCDEF''
                       [0, 1, 2, 3, 4, 5, 6, 7, 8, 9, 10, 11, 12, 13, 14, 15, 10, 11, 12, 13, 14, 15]) c of
        Some d \<Rightarrow> d
      | None \<Rightarrow> 0)"

definition radix_val :: "int \<Rightarrow> string \<Rightarrow> int" where
  "radix_val b s = foldl (\<lambda>n c. b * n + digit_val c) 0 s"

definition safe_integer :: "int \<Rightarrow> jsnumber" where
  \<comment> \<open>A non-negative integer as a Number: exact up to \<open>2 ^ 53\<close>, not computed above.\<close>
  "safe_integer v = (if v \<le> 2 ^ 53 then Num v else Other)"

definition decimal_value :: "int \<Rightarrow> int \<Rightarrow> jsnumber" where
  \<comment> \<open>The Number nearest to \<open>m * 10 ^ e\<close>, as far as the model computes it: zero (also
      when the value rounds to zero, that is when it is at most \<open>2 ^ -1075\<close>), an exact
      integer up to \<open>2 ^ 53\<close>, or \<open>Other\<close>.\<close>
  "decimal_value m e =
     (if m = 0 then Num 0
      else if 0 \<le> e then safe_integer (m * 10 ^ nat e)
      else if 10 ^ nat (- e) dvd m then safe_integer (m div 10 ^ nat (- e))
      else if m * 2 ^ 1075 \<le> 10 ^ nat (- e) then Num 0
      else Other)"

definition exponent_part :: "string \<Rightarrow> int option" where
  \<comment> \<open>ExponentPart, or nothing: \<open>e\<close> or \<open>E\<close>, an optional sign, one or more digits.\<close>
  "exponent_part s =
     (case s of
        [] \<Rightarrow> Some 0
      | c # r \<Rightarrow>
          if c = CHR ''e'' \<or> c = CHR ''E'' then
            (let (neg, ds) =
               (case r of
                  [] \<Rightarrow> (False, [])
                | d # r' \<Rightarrow>
                    if d = CHR ''-'' then (True, r')
                    else if d = CHR ''+'' then (False, r')
                    else (False, r))
             in if ds \<noteq> [] \<and> list_all is_digit ds
                then Some (if neg then - radix_val 10 ds else radix_val 10 ds)
                else None)
          else None)"

definition unsigned_decimal :: "string \<Rightarrow> jsnumber option" where
  \<comment> \<open>StrUnsignedDecimalLiteral: \<open>Infinity\<close>, digits with an optional fraction and
      exponent, or a fraction starting with the point. \<open>None\<close>: not such a literal.\<close>
  "unsigned_decimal s =
     (if s = ''Infinity'' then Some Other
      else
        (let ip = takeWhile is_digit s; r = dropWhile is_digit s;
             (fp, r') =
               (case r of
                  [] \<Rightarrow> ([], [])
                | c # t \<Rightarrow>
                    if c = CHR ''.'' then (takeWhile is_digit t, dropWhile is_digit t)
                    else ([], r))
         in if ip = [] \<and> fp = [] then None
            else
              (case exponent_part r' of
                 None \<Rightarrow> None
               | Some x \<Rightarrow> Some (decimal_value (radix_val 10 (ip @ fp)) (x - int (length fp))))))"

definition non_decimal :: "string \<Rightarrow> jsnumber option" where
  \<comment> \<open>NonDecimalIntegerLiteral: \<open>0x\<close>, \<open>0o\<close> or \<open>0b\<close> (either case) and digits of
      that radix; it takes no sign.\<close>
  "non_decimal s =
     (case s of
        z # k # ds \<Rightarrow>
          if z = CHR ''0'' \<and> ds \<noteq> [] then
            (if (k = CHR ''x'' \<or> k = CHR ''X'') \<and> list_all is_hex_digit ds
               then Some (safe_integer (radix_val 16 ds))
             else if (k = CHR ''o'' \<or> k = CHR ''O'') \<and> list_all (\<lambda>c. c \<in> set ''01234567'') ds
               then Some (safe_integer (radix_val 8 ds))
             else if (k = CHR ''b'' \<or> k = CHR ''B'') \<and> list_all (\<lambda>c. c \<in> set ''01'') ds
               then Some (safe_integer (radix_val 2 ds))
             else None)
          else None
      | _ \<Rightarrow> None)"

definition negate :: "jsnumber \<Rightarrow> jsnumber" where
  "negate n = (case n of Num i \<Rightarrow> Num (- i) | _ \<Rightarrow> n)"

definition StringToNumber :: "string \<Rightarrow> jsnumber" where
  \<comment> \<open>\<open>Number(s)\<close> for a string: white space is trimmed, the empty string is 0, a
      string that is not a numeric literal is \<open>NaN\<close>.\<close>
  "StringToNumber s =
     (let t = trim s in
      if t = [] then Num 0
      else
        (case non_decimal t of
           Some n \<Rightarrow> n
         | None \<Rightarrow>
             (case t of
                c # r \<Rightarrow>
                  if c = CHR ''+'' then (case unsigned_decimal r of Some n \<Rightarrow> n | None \<Rightarrow> NaN)
                  else if c = CHR ''-'' then
                    (case unsigned_decimal r of Some n \<Rightarrow> negate n | None \<Rightarrow> NaN)
                  else (case unsigned_decimal t of Some n \<Rightarrow> n | None \<Rightarrow> NaN)
              | [] \<Rightarrow> Num 0)))"

subsection \<open>Property access, truthiness and Number on JSON values\<close>

fun get_prop :: "json \<Rightarrow> string \<Rightarrow> error + json option" where
  \<comment> \<open>\<open>v.k\<close> for a key that no built-in prototype defines (the code reads
      \<open>reviews\<close>, \<open>reviewComment\<close> and \<open>lineNumber\<close>): a TypeError on \<open>null\<close>, the
      own property of an object (whose properties are listed once each), \<open>undefined\<close>
      otherwise.\<close>
  "get_prop JNull k = Inl TypeError"
| "get_prop (JObj kvs) k = Inr (map_of kvs k)"
| "get_prop v k = Inr None"

fun truthy :: "json \<Rightarrow> bool" where
  "truthy JNull = False"
| "truthy (JBool b) = b"
| "truthy (JNum n) = (n \<noteq> Num 0 \<and> n \<noteq> NaN)"
| "truthy (JStr s) = (s \<noteq> [])"
| "truthy (JArr xs) = True"
| "truthy (JObj kvs) = True"

fun ToString_throws :: "json \<Rightarrow> bool" where
  \<comment> \<open>Converting the value to a primitive throws a TypeError: an object parsed from JSON
      with an own \<open>toString\<close> property (which is never callable), here or in an array.\<close>
  "ToString_throws (JObj kvs) = (map_of kvs ''toString'' \<noteq> None)"
| "ToString_throws (JArr xs) = list_ex ToString_throws xs"
| "ToString_throws v = False"

fun ToNumber :: "json \<Rightarrow> error + jsnumber" where
  \<comment> \<open>\<open>Number(v)\<close>. An array is converted through its \<open>join(",")\<close>: empty gives 0, one
      element gives the number of that element's string, more give \<open>NaN\<close> (the comma).\<close>
  "ToNumber JNull = Inr (Num 0)"
| "ToNumber (JBool b) = Inr (Num (if b then 1 else 0))"
| "ToNumber (JNum n) = Inr n"
| "ToNumber (JStr s) = Inr (StringToNumber s)"
| "ToNumber (JObj kvs) = (if ToString_throws (JObj kvs) then Inl TypeError else Inr NaN)"
| "ToNumber (JArr []) = Inr (Num 0)"
| "ToNumber (JArr [x]) =
     (if ToString_throws x then Inl TypeError
      else
        (case x of
           JNull \<Rightarrow> Inr (Num 0)
         | JBool b \<Rightarrow> Inr NaN
         | JNum n \<Rightarrow> Inr n
         | JStr s \<Rightarrow> Inr (StringToNumber s)
         | JArr ys \<Rightarrow> ToNumber (JArr ys)
         | JObj kvs \<Rightarrow> Inr NaN))"
| "ToNumber (JArr (x # y # zs)) =
     (if list_ex ToString_throws (x # y # zs) then Inl TypeError else Inr NaN)"

definition Number :: "json option \<Rightarrow> error + jsnumber" where
  "Number v = (case v of None \<Rightarrow> Inr NaN | Some j \<Rightarrow> ToNumber j)"

subsection \<open>Template literals\<close>

definition digit_char :: "nat \<Rightarrow> char" where
  "digit_char d = ''0123456789'' ! (d mod 10)"

fun string_of_nat :: "nat \<Rightarrow> string" where
  "string_of_nat n =
     (if n < 10 then [digit_char n] else string_of_nat (n div 10) @ [digit_char (n mod 10)])"

declare string_of_nat.simps [simp del]

definition string_of_int :: "int \<Rightarrow> string" where
  "string_of_int i = (if i < 0 then CHR ''-'' # string_of_nat (nat (- i)) else string_of_nat (nat i))"

fun join :: "string \<Rightarrow> string list \<Rightarrow> string" where
  "join sep [] = []"
| "join sep [x] = x"
| "join sep (x # y # zs) = x @ sep @ join sep (y # zs)"

definition nl :: string where
  "nl = [CHR 0x0A]"

section \<open>The data of parse-diff and of the action\<close>

text \<open>
  parse-diff's \<open>Change\<close> is a union of three shapes: an added line
  \<open>{type: "add", ln, content}\<close> (\<open>ln\<close> is the line's number in the new file), a removed
  line \<open>{type: "del", ln, content}\<close> (\<open>ln\<close> is its number in the old file) and a
  context line \<open>{type: "normal", ln1, ln2, content}\<close> (old and new number). The code
  tests which of \<open>ln\<close> and \<open>ln2\<close> a change has, so a change is a record of optional
  fields. Only the fields the code reads are kept of \<open>Chunk\<close> and \<open>File\<close>, with
  \<open>from\<close> (as \<open>from_file\<close>) to stand for the ones it ignores.
\<close>

datatype change_type = Add | Del | Normal

record Change =
  ctype :: change_type
  content :: string
  ln :: "int option"
  ln1 :: "int option"
  ln2 :: "int option"

record Chunk =
  content :: string
  changes :: "Change list"

record File =
  chunks :: "Chunk list"
  from_file :: "string option"
  to :: "string option"

record PRDetails =
  owner :: string
  repo :: string
  pull_number :: int
  title :: string
  description :: string
  headSha :: string

text \<open>A review comment as sent to the platform: \<open>{body, path, line}\<close>.\<close>

record Comment =
  body :: "json option"
  path :: string
  line :: jsnumber

text \<open>
  A finding as the declared type has it, \<open>{lineNumber: string, reviewComment: string}\<close>,
  and the JSON object it is at run time.
\<close>

record ReviewFinding =
  lineNumber :: string
  reviewComment :: string

definition finding_json :: "ReviewFinding \<Rightarrow> json" where
  "finding_json f = JObj [(''lineNumber'', JStr (lineNumber f)), (''reviewComment'', JStr (reviewComment f))]"


section \<open>The outside world\<close>

text \<open>
  Everything the action does to its environment is recorded in a trace, in order. The
  environment's answers are functions of the trace so far and of the request, so the same
  request may be answered differently at different times. The library functions the code
  calls and whose sources are not part of the repository (\<open>JSON.parse\<close>,
  \<open>minimatch\<close>, \<open>parseDiff\<close>, the base64 decoder) are fields of the world too.

  A request is recorded whether it succeeds or not. A logged message is recorded by its
  fixed text, without the value printed after it (the error, the event's name).
\<close>

datatype io =
    ReadEvent
  | PullsGet string string int
  | PullsGetDiff string string int
  | CompareCommits string string "string option" "string option"
  | GetContent string string string string
  | ChatCompletion string
  | CreateReview string string int "Comment list" string
  | ConsoleLog string
  | ConsoleWarn string
  | ConsoleError string

datatype 'a response = Rejected | Resolved 'a

text \<open>The event payload, as far as the code reads it.\<close>

record Event =
  repository_owner_login :: string
  repository_name :: string
  number :: int
  action :: "string option"
  before :: "string option"
  after :: "string option"

text \<open>The pull request as \<open>pulls.get\<close> returns it: \<open>title\<close> and \<open>body\<close> may be null.\<close>

record PullData =
  pr_title :: "string option"
  pr_body :: "string option"
  head_sha :: string

text \<open>
  A choice of a completion: its message, if any, and the message's content, if any
  (\<open>choices[0].message?.content\<close>).
\<close>

type_synonym choice = "string option option"

record world =
  readEvent :: "io list \<Rightarrow> Event option"
    \<comment> \<open>reading and parsing the file at \<open>GITHUB_EVENT_PATH\<close>; \<open>None\<close>: it throws\<close>
  pulls_get :: "io list \<Rightarrow> string \<Rightarrow> string \<Rightarrow> int \<Rightarrow> PullData response"
  pulls_get_diff :: "io list \<Rightarrow> string \<Rightarrow> string \<Rightarrow> int \<Rightarrow> string option response"
    \<comment> \<open>\<open>response.data\<close> of the diff request: a string or null\<close>
  compareCommits :: "io list \<Rightarrow> string \<Rightarrow> string \<Rightarrow> string option \<Rightarrow> string option \<Rightarrow> string response"
    \<comment> \<open>\<open>String(response.data)\<close> of the comparison\<close>
  getContent :: "io list \<Rightarrow> string \<Rightarrow> string \<Rightarrow> string \<Rightarrow> string \<Rightarrow> string option response"
    \<comment> \<open>\<open>response.data.content\<close>; \<open>None\<close>: the data has no \<open>content\<close>\<close>
  chat_completions_create :: "io list \<Rightarrow> string \<Rightarrow> choice list response"
  createReview :: "io list \<Rightarrow> string \<Rightarrow> string \<Rightarrow> int \<Rightarrow> Comment list \<Rightarrow> unit response"
  exclude_input :: string
    \<comment> \<open>\<open>core.getInput("exclude")\<close>\<close>
  JSON_parse :: "string \<Rightarrow> json option"
    \<comment> \<open>\<open>None\<close>: a SyntaxError\<close>
  minimatch :: "string \<Rightarrow> string \<Rightarrow> bool"
  parseDiff :: "string \<Rightarrow> File list"
  base64_utf8 :: "string \<Rightarrow> string"
    \<comment> \<open>\<open>Buffer.from(encoded, "base64").toString("utf8")\<close>\<close>
  native_text :: "string \<Rightarrow> string"
    \<comment> \<open>the text of the member of \<open>Object.prototype\<close> of that name in a template\<close>

type_synonym 'a result = "io list \<times> (error + 'a)"

section \<open>The functions of main.ts\<close>

definition getPRDetails :: "world \<Rightarrow> io list \<Rightarrow> PRDetails result" where
  "getPRDetails w tr =
     (case readEvent w tr of
        None \<Rightarrow> (tr @ [ReadEvent], Inl ReadError)
      | Some ev \<Rightarrow>
          (let tr1 = tr @ [ReadEvent];
               tr2 = tr1 @ [PullsGet (repository_owner_login ev) (repository_name ev) (number ev)]
           in case pulls_get w tr1 (repository_owner_login ev) (repository_name ev) (number ev) of
                Rejected \<Rightarrow> (tr2, Inl RequestError)
              | Resolved d \<Rightarrow>
                  (tr2, Inr \<lparr>owner = repository_owner_login ev,
                             repo = repository_name ev,
                             pull_number = number ev,
                             title = (case pr_title d of None \<Rightarrow> [] | Some t \<Rightarrow> t),
                             description = (case pr_body d of None \<Rightarrow> [] | Some b \<Rightarrow> b),
                             headSha = head_sha d\<rparr>)))"

definition getDiff :: "world \<Rightarrow> io list \<Rightarrow> string \<Rightarrow> string \<Rightarrow> int \<Rightarrow> string option result" where
  "getDiff w tr owner' repo' pull_number' =
     (case pulls_get_diff w tr owner' repo' pull_number' of
        Rejected \<Rightarrow> (tr @ [PullsGetDiff owner' repo' pull_number'], Inl RequestError)
      | Resolved d \<Rightarrow> (tr @ [PullsGetDiff owner' repo' pull_number'], Inr d))"

definition getFullFileContent :: "world \<Rightarrow> io list \<Rightarrow> string \<Rightarrow> string \<Rightarrow> string \<Rightarrow> string \<Rightarrow> string result" where
  "getFullFileContent w tr owner' repo' path' ref =
     (case getContent w tr owner' repo' path' ref of
        Rejected \<Rightarrow> (tr @ [GetContent owner' repo' path' ref], Inl RequestError)
      | Resolved None \<Rightarrow> (tr @ [GetContent owner' repo' path' ref], Inl (MissingContent path'))
      | Resolved (Some encoded) \<Rightarrow> (tr @ [GetContent owner' repo' path' ref], Inr (base64_utf8 w encoded)))"

subsection \<open>createPrompt\<close>

definition render_change :: "Change \<Rightarrow> string" where
  \<comment> \<open>the function mapped over \<open>chunk.changes\<close>\<close>
  "render_change c =
     (case ln c of
        Some n \<Rightarrow> string_of_int n @ '' '' @ Change.content c
      | None \<Rightarrow>
          (case ln2 c of
             Some n \<Rightarrow> string_of_int n @ '' '' @ Change.content c
           | None \<Rightarrow> Change.content c))"

definition createPrompt :: "File \<Rightarrow> Chunk \<Rightarrow> PRDetails \<Rightarrow> string \<Rightarrow> string" where
  \<open>createPrompt file chunk prDetails fullFile =
     ''Your task is to review pull requests. Instructions:'' @ nl @
     ''- Provide the response in following JSON format:  {"reviews": [{"lineNumber":  <line_number>, "reviewComment": "<review comment>"}]}'' @ nl @
     ''- Do not give positive comments or compliments.'' @ nl @
     ''- Provide comments and suggestions ONLY if there is something to improve, otherwise "reviews" should be an empty array.'' @ nl @
     ''- Write the comment in GitHub Markdown format.'' @ nl @
     ''- Use the given description only for the overall context and only comment the code.'' @ nl @
     ''- IMPORTANT: NEVER suggest adding comments to the code.'' @ nl @
     nl @
     ''You are reviewing changes in file: '' @ (case to file of None \<Rightarrow> ''undefined'' | Some p \<Rightarrow> p) @ nl @
     nl @
     ''Pull request title: '' @ title prDetails @ nl @
     ''Pull request description:'' @ nl @
     ''---'' @ nl @
     description prDetails @ nl @
     ''---'' @ nl @
     nl @
     ''Here is the full content of the file after the changes:'' @ nl @
     ''```ts'' @ nl @
     fullFile @ nl @
     ''```'' @ nl @
     nl @
     ''And here is the diff to focus on:'' @ nl @
     ''```diff'' @ nl @
     Chunk.content chunk @ nl @
     join nl (map render_change (changes chunk)) @ nl @
     nl @
     ''```'' @ nl\<close>

subsection \<open>getAIResponse\<close>

definition response_text :: "choice \<Rightarrow> string" where
  \<comment> \<open>\<open>message?.content?.trim() || "{}"\<close>\<close>
  \<open>response_text choice0 =
     (case choice0 of
        None \<Rightarrow> ''{}''
      | Some None \<Rightarrow> ''{}''
      | Some (Some c) \<Rightarrow> if trim c = [] then ''{}'' else trim c)\<close>

definition getAIResponse :: "world \<Rightarrow> io list \<Rightarrow> string \<Rightarrow> io list \<times> json option" where
  \<comment> \<open>The result is \<open>Some JNull\<close> for null and \<open>None\<close> for undefined. Whatever is
      thrown inside the \<open>try\<close> is logged and gives null.\<close>
  "getAIResponse w tr prompt =
     (let tr1 = tr @ [ChatCompletion prompt];
          caught = (tr1 @ [ConsoleError ''AI error:''], Some JNull)
      in case chat_completions_create w tr prompt of
           Rejected \<Rightarrow> caught
         | Resolved [] \<Rightarrow> caught
         | Resolved (choice0 # _) \<Rightarrow>
             (let res = response_text choice0
              in case JSON_parse w res of
                   None \<Rightarrow> caught
                 | Some v \<Rightarrow>
                     (case get_prop v ''reviews'' of
                        Inl e \<Rightarrow> caught
                      | Inr reviews \<Rightarrow> (tr1, reviews))))"

subsection \<open>createComment\<close>

definition falsy_str :: "string option \<Rightarrow> bool" where
  \<comment> \<open>\<open>!s\<close> for a string that may be missing: undefined, null or the empty string\<close>
  "falsy_str p = (case p of None \<Rightarrow> True | Some s \<Rightarrow> s = [])"

definition createComment_item :: "File \<Rightarrow> json \<Rightarrow> error + Comment list" where
  \<comment> \<open>the function given to \<open>flatMap\<close>; the object it returns counts as one element\<close>
  "createComment_item file aiResponse =
     (if falsy_str (to file) then Inr []
      else
        (case get_prop aiResponse ''reviewComment'' of
           Inl e \<Rightarrow> Inl e
         | Inr b \<Rightarrow>
             (case get_prop aiResponse ''lineNumber'' of
                Inl e \<Rightarrow> Inl e
              | Inr l \<Rightarrow>
                  (case Number l of
                     Inl e \<Rightarrow> Inl e
                   | Inr n \<Rightarrow> Inr [\<lparr>body = b, path = the (to file), line = n\<rparr>]))))"

fun flatMap :: "('a \<Rightarrow> error + 'b list) \<Rightarrow> 'a list \<Rightarrow> error + 'b list" where
  "flatMap f [] = Inr []"
| "flatMap f (x # xs) =
     (case f x of
        Inl e \<Rightarrow> Inl e
      | Inr ys \<Rightarrow> (case flatMap f xs of Inl e \<Rightarrow> Inl e | Inr zs \<Rightarrow> Inr (ys @ zs)))"

definition createComment :: "File \<Rightarrow> Chunk \<Rightarrow> json \<Rightarrow> error + Comment list" where
  \<comment> \<open>Only an array has \<open>flatMap\<close>: on any other value the call is a TypeError.\<close>
  "createComment file chunk aiResponses =
     (case aiResponses of
        JArr xs \<Rightarrow> flatMap (createComment_item file) xs
      | _ \<Rightarrow> Inl TypeError)"

subsection \<open>analyzeCode\<close>

text \<open>
  \<open>fileCache\<close> is a plain object, so reading \<open>fileCache[p]\<close> finds the members of
  \<open>Object.prototype\<close> as well as the paths stored in it.
\<close>

datatype cached = Absent | Own string | Inherited

definition Object_prototype_keys :: "string list" where
  "Object_prototype_keys =
     [''constructor'', ''__defineGetter__'', ''__defineSetter__'', ''hasOwnProperty'',
      ''__lookupGetter__'', ''__lookupSetter__'', ''isPrototypeOf'', ''propertyIsEnumerable'',
      ''toString'', ''valueOf'', ''__proto__'', ''toLocaleString'']"

definition fileCache_get :: "(string \<rightharpoonup> string) \<Rightarrow> string \<Rightarrow> cached" where
  "fileCache_get fileCache p =
     (case fileCache p of
        Some v \<Rightarrow> Own v
      | None \<Rightarrow> if p \<in> set Object_prototype_keys then Inherited else Absent)"

fun cached_truthy :: "cached \<Rightarrow> bool" where
  "cached_truthy Absent = False"
| "cached_truthy (Own v) = (v \<noteq> [])"
| "cached_truthy Inherited = True"

fun cached_text :: "world \<Rightarrow> string \<Rightarrow> cached \<Rightarrow> string" where
  "cached_text w p Absent = ''undefined''"
| "cached_text w p (Own v) = v"
| "cached_text w p Inherited = native_text w p"

fun analyzeCode_chunks ::
  "world \<Rightarrow> File \<Rightarrow> PRDetails \<Rightarrow> string \<Rightarrow> Chunk list \<Rightarrow> io list \<Rightarrow> Comment list \<Rightarrow> Comment list result" where
  \<comment> \<open>the loop over \<open>file.chunks\<close>; \<open>fullFile\<close> is \<open>fileCache[file.to]\<close>, which the
      loop does not change\<close>
  "analyzeCode_chunks w file prDetails fullFile [] tr comments = (tr, Inr comments)"
| "analyzeCode_chunks w file prDetails fullFile (chunk # rest) tr comments =
     (let prompt = createPrompt file chunk prDetails fullFile;
          (tr1, aiResponse) = getAIResponse w tr prompt
      in case aiResponse of
           None \<Rightarrow> analyzeCode_chunks w file prDetails fullFile rest tr1 comments
         | Some r \<Rightarrow>
             if truthy r then
               (case createComment file chunk r of
                  Inl e \<Rightarrow> (tr1, Inl e)
                | Inr newComments \<Rightarrow>
                    analyzeCode_chunks w file prDetails fullFile rest tr1 (comments @ newComments))
             else analyzeCode_chunks w file prDetails fullFile rest tr1 comments)"

definition fetch_cached ::
  "world \<Rightarrow> PRDetails \<Rightarrow> string \<Rightarrow> io list \<Rightarrow> (string \<rightharpoonup> string) \<Rightarrow> io list \<times> (string \<rightharpoonup> string)" where
  \<comment> \<open>the \<open>if (!fileCache[file.to])\<close> block\<close>
  "fetch_cached w prDetails p tr fileCache =
     (if \<not> cached_truthy (fileCache_get fileCache p) then
        (case getFullFileContent w tr (owner prDetails) (repo prDetails) p (headSha prDetails) of
           (tr1, Inr text) \<Rightarrow> (tr1, fileCache(p \<mapsto> text))
         | (tr1, Inl e) \<Rightarrow>
             (tr1 @ [ConsoleWarn (''Unable to fetch full file content for '' @ p)], fileCache(p \<mapsto> [])))
      else (tr, fileCache))"

fun analyzeCode_files ::
  "world \<Rightarrow> PRDetails \<Rightarrow> File list \<Rightarrow> io list \<Rightarrow> Comment list \<Rightarrow> (string \<rightharpoonup> string) \<Rightarrow> Comment list result" where
  \<comment> \<open>the loop over \<open>parsedDiff\<close>\<close>
  "analyzeCode_files w prDetails [] tr comments fileCache = (tr, Inr comments)"
| "analyzeCode_files w prDetails (file # rest) tr comments fileCache =
     (if to file = Some ''/dev/null'' then analyzeCode_files w prDetails rest tr comments fileCache
      else if falsy_str (to file) then analyzeCode_files w prDetails rest tr comments fileCache
      else
        (let p = the (to file);
             (tr1, fileCache1) = fetch_cached w prDetails p tr fileCache
         in case analyzeCode_chunks w file prDetails (cached_text w p (fileCache_get fileCache1 p))
                   (chunks file) tr1 comments of
              (tr2, Inl e) \<Rightarrow> (tr2, Inl e)
            | (tr2, Inr comments') \<Rightarrow> analyzeCode_files w prDetails rest tr2 comments' fileCache1))"

definition analyzeCode :: "world \<Rightarrow> io list \<Rightarrow> File list \<Rightarrow> PRDetails \<Rightarrow> Comment list result" where
  "analyzeCode w tr parsedDiff prDetails = analyzeCode_files w prDetails parsedDiff tr [] Map.empty"

subsection \<open>createReviewComment and main\<close>

definition createReviewComment ::
  "world \<Rightarrow> io list \<Rightarrow> string \<Rightarrow> string \<Rightarrow> int \<Rightarrow> Comment list \<Rightarrow> unit result" where
  "createReviewComment w tr owner' repo' pull_number' comments =
     (case createReview w tr owner' repo' pull_number' comments of
        Rejected \<Rightarrow> (tr @ [CreateReview owner' repo' pull_number' comments ''COMMENT''], Inl RequestError)
      | Resolved u \<Rightarrow> (tr @ [CreateReview owner' repo' pull_number' comments ''COMMENT''], Inr ()))"

fun split :: "char \<Rightarrow> string \<Rightarrow> string list" where
  \<comment> \<open>\<open>s.split(d)\<close> for a separator of one character\<close>
  "split d [] = [[]]"
| "split d (c # cs) =
     (if c = d then [] # split d cs
      else (case split d cs of [] \<Rightarrow> [[c]] | x # xs \<Rightarrow> (c # x) # xs))"

definition excludePatterns :: "world \<Rightarrow> string list" where
  "excludePatterns w = map trim (split (CHR '','') (exclude_input w))"

definition filteredDiff :: "(string \<Rightarrow> string \<Rightarrow> bool) \<Rightarrow> File list \<Rightarrow> string list \<Rightarrow> File list" where
  \<comment> \<open>\<open>parsedDiff.filter(...)\<close>, with \<open>minimatch\<close> as \<open>mm\<close>\<close>
  "filteredDiff mm parsedDiff patterns =
     filter (\<lambda>file. \<not> list_ex (\<lambda>pattern. mm (case to file of None \<Rightarrow> [] | Some p \<Rightarrow> p) pattern) patterns)
       parsedDiff"

definition fetch_diff :: "world \<Rightarrow> io list \<Rightarrow> PRDetails \<Rightarrow> Event \<Rightarrow> string option option result" where
  \<comment> \<open>The branch on \<open>eventData.action\<close>: the diff (a string or null), or \<open>None\<close> after
      the log of an unsupported event.\<close>
  "fetch_diff w tr prDetails eventData =
     (if action eventData = Some ''opened'' then
        (case getDiff w tr (owner prDetails) (repo prDetails) (pull_number prDetails) of
           (tr1, Inl e) \<Rightarrow> (tr1, Inl e)
         | (tr1, Inr d) \<Rightarrow> (tr1, Inr (Some d)))
      else if action eventData = Some ''synchronize'' then
        (case compareCommits w tr (owner prDetails) (repo prDetails) (before eventData) (after eventData) of
           Rejected \<Rightarrow>
             (tr @ [CompareCommits (owner prDetails) (repo prDetails) (before eventData) (after eventData)],
              Inl RequestError)
         | Resolved s \<Rightarrow>
             (tr @ [CompareCommits (owner prDetails) (repo prDetails) (before eventData) (after eventData)],
              Inr (Some (Some s))))
      else (tr @ [ConsoleLog ''Unsupported event:''], Inr None))"

definition main_review :: "world \<Rightarrow> io list \<Rightarrow> (PRDetails \<times> Comment list) option result" where
  \<comment> \<open>\<open>main\<close> up to and with the call of \<open>analyzeCode\<close>: the comments it collected,
      or \<open>None\<close> when \<open>main\<close> returned before.\<close>
  "main_review w tr =
     (case getPRDetails w tr of
        (tr1, Inl e) \<Rightarrow> (tr1, Inl e)
      | (tr1, Inr prDetails) \<Rightarrow>
          (case readEvent w tr1 of
             None \<Rightarrow> (tr1 @ [ReadEvent], Inl ReadError)
           | Some eventData \<Rightarrow>
               (case fetch_diff w (tr1 @ [ReadEvent]) prDetails eventData of
                  (tr2, Inl e) \<Rightarrow> (tr2, Inl e)
                | (tr2, Inr None) \<Rightarrow> (tr2, Inr None)
                | (tr2, Inr (Some diff)) \<Rightarrow>
                    if falsy_str diff then (tr2 @ [ConsoleLog ''No diff found''], Inr None)
                    else
                      (case analyzeCode w tr2
                              (filteredDiff (minimatch w) (parseDiff w (the diff)) (excludePatterns w))
                              prDetails of
                         (tr3, Inl e) \<Rightarrow> (tr3, Inl e)
                       | (tr3, Inr comments) \<Rightarrow> (tr3, Inr (Some (prDetails, comments)))))))"

definition main :: "world \<Rightarrow> io list \<Rightarrow> unit result" where
  "main w tr =
     (case main_review w tr of
        (tr1, Inl e) \<Rightarrow> (tr1, Inl e)
      | (tr1, Inr None) \<Rightarrow> (tr1, Inr ())
      | (tr1, Inr (Some (prDetails, comments))) \<Rightarrow>
          if length comments > 0 then
            createReviewComment w tr1 (owner prDetails) (repo prDetails) (pull_number prDetails) comments
          else (tr1, Inr ()))"

definition run :: "world \<Rightarrow> io list \<times> nat" where
  \<comment> \<open>\<open>main().catch(...)\<close>, once the constants of the module are set: the trace and the
      exit code of the process\<close>
  "run w =
     (case main w [] of
        (tr, Inl e) \<Rightarrow> (tr @ [ConsoleError ''Unhandled error:''], 1)
      | (tr, Inr u) \<Rightarrow> (tr, 0))"


section \<open>The specification's vocabulary\<close>

text \<open>
  The specification speaks of a hunk's lines, each with a kind and with the numbers it
  has in the new and in the old file. \<open>line_of_change\<close> reads a change of parse-diff as
  such a line, and \<open>prefix_line\<close> is the prefix rule in the specification's words: the
  new number if present, else the old one if present, else no prefix.
\<close>

datatype line_kind = Added | Removed | Unchanged

record Line =
  content :: string
  kind :: line_kind
  newLineNumber :: "int option"
  oldLineNumber :: "int option"

definition well_typed_change :: "Change \<Rightarrow> bool" where
  \<comment> \<open>the change has one of the three shapes of parse-diff's type\<close>
  "well_typed_change c =
     (case ctype c of
        Add \<Rightarrow> ln c \<noteq> None \<and> ln1 c = None \<and> ln2 c = None
      | Del \<Rightarrow> ln c \<noteq> None \<and> ln1 c = None \<and> ln2 c = None
      | Normal \<Rightarrow> ln c = None \<and> ln1 c \<noteq> None \<and> ln2 c \<noteq> None)"

definition line_of_change :: "Change \<Rightarrow> Line" where
  "line_of_change c =
     (case ctype c of
        Add \<Rightarrow> \<lparr>Line.content = Change.content c, kind = Added, newLineNumber = ln c, oldLineNumber = None\<rparr>
      | Del \<Rightarrow> \<lparr>Line.content = Change.content c, kind = Removed, newLineNumber = None, oldLineNumber = ln c\<rparr>
      | Normal \<Rightarrow>
          \<lparr>Line.content = Change.content c, kind = Unchanged, newLineNumber = ln2 c, oldLineNumber = ln1 c\<rparr>)"

definition prefix_line :: "Line \<Rightarrow> string" where
  "prefix_line l =
     (case newLineNumber l of
        Some n \<Rightarrow> string_of_int n @ '' '' @ Line.content l
      | None \<Rightarrow>
          (case oldLineNumber l of
             Some n \<Rightarrow> string_of_int n @ '' '' @ Line.content l
           | None \<Rightarrow> Line.content l))"

text \<open>
  The failures of the completion step, read off the world's answer to a prompt: the
  request is rejected (a transport or a provider error), the answer has no choice, its
  text is not JSON, it is the JSON \<open>null\<close>, or the parsed value has no \<open>reviews\<close>.
\<close>

datatype failure = RequestFailed | NoChoice | NotJSON | NullAnswer | MissingReviews

definition completion_failure :: "world \<Rightarrow> io list \<Rightarrow> string \<Rightarrow> failure option" where
  "completion_failure w tr prompt =
     (case chat_completions_create w tr prompt of
        Rejected \<Rightarrow> Some RequestFailed
      | Resolved [] \<Rightarrow> Some NoChoice
      | Resolved (choice0 # _) \<Rightarrow>
          (case JSON_parse w (response_text choice0) of
             None \<Rightarrow> Some NotJSON
           | Some JNull \<Rightarrow> Some NullAnswer
           | Some v \<Rightarrow> if get_prop v ''reviews'' = Inr None then Some MissingReviews else None))"

definition blank_content :: "choice \<Rightarrow> bool" where
  \<comment> \<open>the message or its content is absent, or the content is empty or white space only\<close>
  "blank_content choice0 =
     (case choice0 of None \<Rightarrow> True | Some None \<Rightarrow> True | Some (Some c) \<Rightarrow> list_all is_ws c)"

definition reviewable :: "File \<Rightarrow> bool" where
  \<comment> \<open>the target is neither the deletion sentinel nor absent (nor empty)\<close>
  "reviewable file = (to file \<noteq> Some ''/dev/null'' \<and> \<not> falsy_str (to file))"

fun is_CreateReview :: "io \<Rightarrow> bool" where
  "is_CreateReview (CreateReview o' r n cs e) = True"
| "is_CreateReview x = False"

fun fetches :: "string \<Rightarrow> io \<Rightarrow> bool" where
  \<comment> \<open>the event is a request for the content of the file at that path\<close>
  "fetches p (GetContent o' r p' h) = (p' = p)"
| "fetches p x = False"

fun is_api_call :: "io \<Rightarrow> bool" where
  \<comment> \<open>a request to the hosting platform or to the completion provider\<close>
  "is_api_call ReadEvent = False"
| "is_api_call (ConsoleLog m) = False"
| "is_api_call (ConsoleWarn m) = False"
| "is_api_call (ConsoleError m) = False"
| "is_api_call x = True"

section \<open>Example runs\<close>

text \<open>
  A world for the examples: a pull request that adds line 42 to \<open>a.ts\<close>, and a model
  that answers with one finding on that line. \<open>JSON.parse\<close>, \<open>minimatch\<close> and
  \<open>parseDiff\<close> are given by their values on the texts the examples use.
\<close>

definition ex_change :: Change where
  "ex_change = \<lparr>ctype = Add, Change.content = ''+const x = 42;'', ln = Some 42, ln1 = None, ln2 = None\<rparr>"

definition ex_chunk :: Chunk where
  "ex_chunk = \<lparr>Chunk.content = ''@@ -41,0 +42,1 @@'', changes = [ex_change]\<rparr>"

definition ex_file :: File where
  "ex_file = \<lparr>chunks = [ex_chunk], from_file = Some ''a.ts'', to = Some ''a.ts''\<rparr>"

definition ex_deleted :: File where
  "ex_deleted = \<lparr>chunks = [ex_chunk], from_file = Some ''old.ts'', to = Some ''/dev/null''\<rparr>"

definition ex_no_target :: File where
  "ex_no_target = \<lparr>chunks = [ex_chunk], from_file = Some ''b.ts'', to = None\<rparr>"

definition ex_pr :: PRDetails where
  "ex_pr = \<lparr>owner = ''octo'', repo = ''demo'', pull_number = 7, title = ''Add x'', description = [],
            headSha = ''c0ffee''\<rparr>"

definition ex_event :: Event where
  "ex_event = \<lparr>repository_owner_login = ''octo'', repository_name = ''demo'', number = 7,
               action = Some ''opened'', before = None, after = None\<rparr>"

definition ex_answer :: string where
  \<open>ex_answer = ''{"reviews":[{"lineNumber":"42","reviewComment":"avoid magic number"}]}''\<close>

definition ex_JSON_parse :: "string \<Rightarrow> json option" where
  \<open>ex_JSON_parse =
     map_of
       [(''{}'', JObj []),
        (''null'', JNull),
        (''{"reviews":[]}'', JObj [(''reviews'', JArr [])]),
        (ex_answer,
         JObj [(''reviews'',
                JArr [JObj [(''lineNumber'', JStr ''42''), (''reviewComment'', JStr ''avoid magic number'')]])])]\<close>

definition ex_minimatch :: "string \<Rightarrow> string \<Rightarrow> bool" where
  \<comment> \<open>the empty pattern matches the empty path only\<close>
  "ex_minimatch p pattern = (if pattern = [] then p = [] else (p, pattern) \<in> set [(''README.md'', ''*.md'')])"

definition ex_world :: world where
  "ex_world =
     \<lparr>readEvent = (\<lambda>tr. Some ex_event),
      pulls_get = (\<lambda>tr o' r n. Resolved \<lparr>pr_title = Some ''Add x'', pr_body = None, head_sha = ''c0ffee''\<rparr>),
      pulls_get_diff = (\<lambda>tr o' r n. Resolved (Some ''DIFF'')),
      compareCommits = (\<lambda>tr o' r b h. Resolved ''DIFF''),
      getContent = (\<lambda>tr o' r p' h. Resolved (Some ''Y29uc3QgeCA9IDQyOw=='')),
      chat_completions_create = (\<lambda>tr prompt. Resolved [Some (Some ex_answer)]),
      createReview = (\<lambda>tr o' r n cs. Resolved ()),
      exclude_input = [],
      JSON_parse = ex_JSON_parse,
      minimatch = ex_minimatch,
      parseDiff = (\<lambda>d. if d = ''DIFF'' then [ex_file] else []),
      base64_utf8 = (\<lambda>e. ''const x = 42;''),
      native_text = (\<lambda>k. [])\<rparr>"

text \<open>Variants of the example world, one for each of the other examples.\<close>

definition ex_world_closed :: world where
  \<comment> \<open>the event is the closing of the pull request\<close>
  "ex_world_closed = ex_world\<lparr>readEvent := (\<lambda>tr. Some (ex_event\<lparr>action := Some ''closed''\<rparr>))\<rparr>"

definition ex_world_closed_offline :: world where
  \<comment> \<open>the same, and the pull request cannot be fetched\<close>
  "ex_world_closed_offline = ex_world_closed\<lparr>pulls_get := (\<lambda>tr o' r n. Rejected)\<rparr>"

definition ex_world_no_findings :: world where
  \<comment> \<open>the model finds nothing to say\<close>
  \<open>ex_world_no_findings =
     ex_world\<lparr>chat_completions_create := (\<lambda>tr prompt. Resolved [Some (Some ''{"reviews":[]}'')])\<rparr>\<close>

definition ex_world_blank :: world where
  \<comment> \<open>the model's message is white space\<close>
  "ex_world_blank = ex_world\<lparr>chat_completions_create := (\<lambda>tr prompt. Resolved [Some (Some ''  '')])\<rparr>"

definition ex_world_not_json :: world where
  "ex_world_not_json =
     ex_world\<lparr>chat_completions_create := (\<lambda>tr prompt. Resolved [Some (Some ''not json'')])\<rparr>"

definition ex_world_no_content :: world where
  \<comment> \<open>the file's content cannot be fetched\<close>
  "ex_world_no_content = ex_world\<lparr>getContent := (\<lambda>tr o' r p' h. Rejected)\<rparr>"

definition ex_comment :: Comment where
  "ex_comment = \<lparr>body = Some (JStr ''avoid magic number''), path = ''a.ts'', line = Num 42\<rparr>"

definition ex_world_empty_object :: world where
  \<comment> \<open>the model answers with an object that has no \<open>reviews\<close>\<close>
  "ex_world_empty_object =
     ex_world\<lparr>chat_completions_create := (\<lambda>tr prompt. Resolved [Some (Some ''{}'')])\<rparr>"

section \<open>The comment projector\<close>

lemma flatMap_findings:
  assumes "\<not> falsy_str (to f)"
  shows "flatMap (createComment_item f) (map finding_json fs) =
         Inr (map (\<lambda>x. \<lparr>body = Some (JStr (reviewComment x)), path = the (to f),
                          line = StringToNumber (lineNumber x)\<rparr>) fs)"
  using assms
  by (induction fs) (simp_all add: createComment_item_def finding_json_def Number_def)

lemma flatMap_no_target:
  assumes "falsy_str (to f)"
  shows "flatMap (createComment_item f) xs = Inr []"
  using assms by (induction xs) (simp_all add: createComment_item_def)

lemma StringToNumber_abc: "StringToNumber ''abc'' = NaN"
  by (simp add: StringToNumber_def trim_def is_ws_def non_decimal_def unsigned_decimal_def is_digit_def)

lemma StringToNumber_42: "StringToNumber ''42'' = Num 42"
  by (simp add: StringToNumber_def trim_def is_ws_def non_decimal_def unsigned_decimal_def is_digit_def
      exponent_part_def decimal_value_def radix_val_def digit_val_def safe_integer_def)

text \<open>
  C1, as the code has it. For a file change whose target path is present (and not empty),
  \<open>createComment\<close> gives exactly one comment for every finding, in order: its path is
  the target path, its body the finding's \<open>reviewComment\<close> and its line
  \<open>Number(lineNumber)\<close>, which is \<open>NaN\<close> when the string is not numeric. No finding is
  left out for its line number. For a file change without a target path it gives no
  comment at all.
\<close>

theorem createComment_projection:
  "(\<not> falsy_str (to f) \<longrightarrow>
      createComment f chunk (JArr (map finding_json fs)) =
      Inr (map (\<lambda>x. \<lparr>body = Some (JStr (reviewComment x)), path = the (to f),
                       line = StringToNumber (lineNumber x)\<rparr>) fs)) \<and>
   (falsy_str (to f) \<longrightarrow> createComment f chunk (JArr xs) = Inr [])"
  by (simp add: createComment_def flatMap_findings flatMap_no_target)

theorem createComment_projection_witness:
  "\<not> falsy_str (to ex_file) \<and>
   createComment ex_file ex_chunk
     (JArr (map finding_json [\<lparr>lineNumber = ''42'', reviewComment = ''avoid magic number''\<rparr>])) =
   Inr [\<lparr>body = Some (JStr ''avoid magic number''), path = ''a.ts'', line = Num 42\<rparr>] \<and>
   falsy_str (to ex_no_target) \<and>
   createComment ex_no_target ex_chunk (JArr [JNull]) = Inr []"
  using createComment_projection
      [of ex_file ex_chunk "[\<lparr>lineNumber = ''42'', reviewComment = ''avoid magic number''\<rparr>]" "[]"]
    createComment_projection [of ex_no_target ex_chunk "[]" "[JNull]"]
  by (simp add: ex_file_def ex_no_target_def falsy_str_def StringToNumber_42)

text \<open>
  The claim as stated fails: the finding with the line number \<open>abc\<close>, which is not
  numeric, is not dropped. Its comment is produced, with the line \<open>NaN\<close>.
\<close>

theorem createComment_non_numeric_counterexample:
  "StringToNumber ''abc'' = NaN \<and>
   createComment ex_file ex_chunk (JArr [finding_json \<lparr>lineNumber = ''abc'', reviewComment = ''x''\<rparr>]) =
   Inr [\<lparr>body = Some (JStr ''x''), path = ''a.ts'', line = NaN\<rparr>]"
  by (simp add: StringToNumber_abc createComment_def createComment_item_def finding_json_def Number_def
      ex_file_def falsy_str_def)

section \<open>The prompt builder\<close>

lemma render_change_refines:
  "well_typed_change c \<Longrightarrow> render_change c = prefix_line (line_of_change c)"
  by (cases "ctype c")
     (auto simp add: well_typed_change_def render_change_def prefix_line_def line_of_change_def)

lemma createPrompt_ends_with_diff:
  "\<exists>pre. createPrompt f chunk prDetails fullFile =
     pre @ Chunk.content chunk @ nl @ join nl (map render_change (changes chunk)) @ nl @ nl @ ''```'' @ nl"
  apply (simp only: createPrompt_def append_assoc [symmetric])
  apply (rule exI)
  apply (rule refl)
  done

lemma string_of_int_42: "string_of_int 42 = ''42''"
  by (simp add: string_of_int_def string_of_nat.simps digit_char_def)

text \<open>
  C8. The line that \<open>createPrompt\<close> writes for a change of a hunk is the line of the
  specification's rule: prefixed with the new line number if the line has one, else with
  the old one if it has one; a change with neither \<open>ln\<close> nor \<open>ln2\<close> is written
  without a prefix. The prompt ends with the hunk's header and these lines, joined by
  line breaks.
\<close>

theorem createPrompt_line_prefixes:
  "(well_typed_change c \<longrightarrow> render_change c = prefix_line (line_of_change c)) \<and>
   (ln c = None \<and> ln2 c = None \<longrightarrow> render_change c = Change.content c) \<and>
   (list_all well_typed_change (changes chunk) \<longrightarrow>
      (\<exists>pre. createPrompt f chunk prDetails fullFile =
         pre @ Chunk.content chunk @ nl @
         join nl (map (\<lambda>c. prefix_line (line_of_change c)) (changes chunk)) @ nl @ nl @ ''```'' @ nl))"
proof (intro conjI impI)
  assume "well_typed_change c"
  then show "render_change c = prefix_line (line_of_change c)"
    by (rule render_change_refines)
next
  assume "ln c = None \<and> ln2 c = None"
  then show "render_change c = Change.content c"
    by (simp add: render_change_def)
next
  assume wt: "list_all well_typed_change (changes chunk)"
  then have "map render_change (changes chunk) = map (\<lambda>c. prefix_line (line_of_change c)) (changes chunk)"
    by (simp add: list_all_iff render_change_refines)
  then have "join nl (map render_change (changes chunk)) =
             join nl (map (\<lambda>c. prefix_line (line_of_change c)) (changes chunk))"
    by (rule arg_cong)
  then show "\<exists>pre. createPrompt f chunk prDetails fullFile =
         pre @ Chunk.content chunk @ nl @
         join nl (map (\<lambda>c. prefix_line (line_of_change c)) (changes chunk)) @ nl @ nl @ ''```'' @ nl"
    using createPrompt_ends_with_diff [of f chunk prDetails fullFile]
    by (simp only:)
qed

theorem createPrompt_line_prefixes_witness:
  "well_typed_change ex_change \<and> render_change ex_change = ''42 +const x = 42;'' \<and>
   prefix_line (line_of_change ex_change) = ''42 +const x = 42;'' \<and>
   render_change (ex_change\<lparr>ln := None\<rparr>) = ''+const x = 42;'' \<and>
   list_all well_typed_change (changes ex_chunk) \<and>
   (\<exists>pre. createPrompt ex_file ex_chunk ex_pr ''const x = 42;'' =
      pre @ ''@@ -41,0 +42,1 @@'' @ nl @ ''42 +const x = 42;'' @ nl @ nl @ ''```'' @ nl)"
proof -
  have wt: "well_typed_change ex_change"
    by (simp add: well_typed_change_def ex_change_def)
  have r: "prefix_line (line_of_change ex_change) = ''42 +const x = 42;''"
    by (simp add: prefix_line_def line_of_change_def ex_change_def string_of_int_42)
  have n: "ln (ex_change\<lparr>ln := None\<rparr>) = None \<and> ln2 (ex_change\<lparr>ln := None\<rparr>) = None"
    by (simp add: ex_change_def)
  have all: "list_all well_typed_change (changes ex_chunk)"
    by (simp add: ex_chunk_def wt)
  show ?thesis
    using createPrompt_line_prefixes [of ex_change ex_chunk ex_file ex_pr "''const x = 42;''"]
      createPrompt_line_prefixes [of "ex_change\<lparr>ln := None\<rparr>" ex_chunk ex_file ex_pr "''const x = 42;''"]
      wt r n all
    by (simp add: ex_chunk_def ex_change_def)
qed

lemma render_change_triple:
  "render_change c =
     (case (ln c, ln2 c, Change.content c) of
        (Some n, l2, t) \<Rightarrow> string_of_int n @ '' '' @ t
      | (None, Some n, t) \<Rightarrow> string_of_int n @ '' '' @ t
      | (None, None, t) \<Rightarrow> t)"
  by (simp add: render_change_def split: option.splits)

lemma render_change_cong:
  "(ln c, ln2 c, Change.content c) = (ln c', ln2 c', Change.content c') \<Longrightarrow>
   render_change c = render_change c'"
  by (simp only: render_change_triple)

lemma map_render_change_cong:
  "map (\<lambda>c. (ln c, ln2 c, Change.content c)) cs = map (\<lambda>c. (ln c, ln2 c, Change.content c)) cs' \<Longrightarrow>
   map render_change cs = map render_change cs'"
proof (induction cs arbitrary: cs')
  case Nil
  then show ?case by simp
next
  case (Cons c cs)
  then obtain c' cs'' where cs': "cs' = c' # cs''"
    by (cases cs') auto
  with Cons.prems have "(ln c, ln2 c, Change.content c) = (ln c', ln2 c', Change.content c')"
    and "map (\<lambda>c. (ln c, ln2 c, Change.content c)) cs = map (\<lambda>c. (ln c, ln2 c, Change.content c)) cs''"
    by simp_all
  then show ?case
    using Cons.IH [of cs''] render_change_cong [of c c'] cs' by simp
qed

text \<open>
  C9. \<open>createPrompt\<close> is a function of its arguments alone, and of these it reads the
  file's target path, the hunk's header, the numbers \<open>ln\<close> and \<open>ln2\<close> and the text of
  each change, the title and the description of the pull request, and the file's
  content: two calls that agree on these give the same prompt, character for character.
\<close>

theorem createPrompt_deterministic:
  assumes "to f = to f'"
    and "Chunk.content chunk = Chunk.content chunk'"
    and "map (\<lambda>c. (ln c, ln2 c, Change.content c)) (changes chunk) =
         map (\<lambda>c. (ln c, ln2 c, Change.content c)) (changes chunk')"
    and "title prDetails = title prDetails'"
    and "description prDetails = description prDetails'"
  shows "createPrompt f chunk prDetails fullFile = createPrompt f' chunk' prDetails' fullFile"
proof -
  have h: "map render_change (changes chunk) = map render_change (changes chunk')"
    using assms(3) by (rule map_render_change_cong)
  show ?thesis
    unfolding createPrompt_def by (simp only: assms(1,2,4,5) h)
qed

theorem createPrompt_deterministic_witness:
  "createPrompt ex_file ex_chunk ex_pr ''const x = 42;'' =
   createPrompt (ex_file\<lparr>from_file := None, chunks := []\<rparr>)
     (ex_chunk\<lparr>changes := [ex_change\<lparr>ctype := Del, ln1 := Some 3\<rparr>]\<rparr>)
     (ex_pr\<lparr>owner := ''someone'', headSha := ''0000''\<rparr>) ''const x = 42;''"
  by (rule createPrompt_deterministic) (simp_all add: ex_file_def ex_chunk_def ex_change_def ex_pr_def)

section \<open>The example run, step by step\<close>

lemma getPRDetails_example: "getPRDetails ex_world [] = ([ReadEvent, PullsGet ''octo'' ''demo'' 7], Inr ex_pr)"
  by (simp add: getPRDetails_def ex_world_def ex_event_def ex_pr_def)

lemma excludePatterns_example: "excludePatterns ex_world = [[]]"
  by (simp add: excludePatterns_def ex_world_def trim_def)

lemma getAIResponse_example:
  "getAIResponse ex_world tr prompt =
     (tr @ [ChatCompletion prompt],
      Some (JArr [JObj [(''lineNumber'', JStr ''42''), (''reviewComment'', JStr ''avoid magic number'')]]))"
  by (simp add: getAIResponse_def ex_world_def response_text_def trim_def is_ws_def ex_answer_def
      ex_JSON_parse_def)

lemma analyzeCode_example:
  "analyzeCode ex_world tr [ex_file] ex_pr =
     (tr @ [GetContent ''octo'' ''demo'' ''a.ts'' ''c0ffee'',
            ChatCompletion (createPrompt ex_file ex_chunk ex_pr ''const x = 42;'')],
      Inr [ex_comment])"
proof -
  have fetch: "fetch_cached ex_world ex_pr ''a.ts'' tr Map.empty =
      (tr @ [GetContent ''octo'' ''demo'' ''a.ts'' ''c0ffee''], [''a.ts'' \<mapsto> ''const x = 42;''])"
    by (simp add: fetch_cached_def fileCache_get_def Object_prototype_keys_def getFullFileContent_def
        ex_world_def ex_pr_def)
  have comment: "createComment ex_file ex_chunk
      (JArr [JObj [(''lineNumber'', JStr ''42''), (''reviewComment'', JStr ''avoid magic number'')]]) =
      Inr [ex_comment]"
    by (simp add: createComment_def createComment_item_def falsy_str_def ex_file_def Number_def
        StringToNumber_42 ex_comment_def)
  have to: "to ex_file = Some ''a.ts''" and chunks: "chunks ex_file = [ex_chunk]"
    by (simp_all add: ex_file_def)
  show ?thesis
    by (simp add: analyzeCode_def to chunks falsy_str_def fetch fileCache_get_def getAIResponse_example comment)
qed

lemma filteredDiff_example: "filteredDiff (minimatch ex_world) [ex_file] [[]] = [ex_file]"
  by (simp add: filteredDiff_def ex_world_def ex_minimatch_def ex_file_def)

lemma main_review_example:
  "main_review ex_world [] =
     ([ReadEvent, PullsGet ''octo'' ''demo'' 7, ReadEvent, PullsGetDiff ''octo'' ''demo'' 7,
       GetContent ''octo'' ''demo'' ''a.ts'' ''c0ffee'',
       ChatCompletion (createPrompt ex_file ex_chunk ex_pr ''const x = 42;'')],
      Inr (Some (ex_pr, [ex_comment])))"
proof -
  have ev: "readEvent ex_world tr = Some ex_event" for tr
    by (simp add: ex_world_def)
  have fd: "fetch_diff ex_world tr ex_pr ex_event = (tr @ [PullsGetDiff ''octo'' ''demo'' 7], Inr (Some (Some ''DIFF'')))"
    for tr
    by (simp add: fetch_diff_def getDiff_def ex_event_def ex_world_def ex_pr_def)
  have pd: "parseDiff ex_world ''DIFF'' = [ex_file]"
    by (simp add: ex_world_def)
  show ?thesis
    by (simp add: main_review_def getPRDetails_example ev fd falsy_str_def pd excludePatterns_example
        filteredDiff_example analyzeCode_example)
qed

lemma getAIResponse_no_content_example:
  "getAIResponse ex_world_no_content tr prompt =
     (tr @ [ChatCompletion prompt],
      Some (JArr [JObj [(''lineNumber'', JStr ''42''), (''reviewComment'', JStr ''avoid magic number'')]]))"
  by (simp add: getAIResponse_def ex_world_no_content_def ex_world_def response_text_def trim_def is_ws_def
      ex_answer_def ex_JSON_parse_def)

lemma createComment_example:
  "createComment ex_file ex_chunk
      (JArr [JObj [(''lineNumber'', JStr ''42''), (''reviewComment'', JStr ''avoid magic number'')]]) =
      Inr [ex_comment]"
  by (simp add: createComment_def createComment_item_def falsy_str_def ex_file_def Number_def
      StringToNumber_42 ex_comment_def)

lemma main_review_no_findings_example:
  "main_review ex_world_no_findings [] =
     ([ReadEvent, PullsGet ''octo'' ''demo'' 7, ReadEvent, PullsGetDiff ''octo'' ''demo'' 7,
       GetContent ''octo'' ''demo'' ''a.ts'' ''c0ffee'',
       ChatCompletion (createPrompt ex_file ex_chunk ex_pr ''const x = 42;'')],
      Inr (Some (ex_pr, [])))"
proof -
  have pr: "getPRDetails ex_world_no_findings [] = ([ReadEvent, PullsGet ''octo'' ''demo'' 7], Inr ex_pr)"
    by (simp add: getPRDetails_def ex_world_no_findings_def ex_world_def ex_event_def ex_pr_def)
  have ev: "readEvent ex_world_no_findings tr = Some ex_event" for tr
    by (simp add: ex_world_no_findings_def ex_world_def)
  have fd: "fetch_diff ex_world_no_findings tr ex_pr ex_event =
      (tr @ [PullsGetDiff ''octo'' ''demo'' 7], Inr (Some (Some ''DIFF'')))" for tr
    by (simp add: fetch_diff_def getDiff_def ex_event_def ex_world_no_findings_def ex_world_def ex_pr_def)
  have files: "filteredDiff (minimatch ex_world_no_findings) (parseDiff ex_world_no_findings ''DIFF'')
      (excludePatterns ex_world_no_findings) = [ex_file]"
    by (simp add: filteredDiff_def excludePatterns_def trim_def ex_world_no_findings_def ex_world_def
        ex_minimatch_def ex_file_def)
  have fetch: "fetch_cached ex_world_no_findings ex_pr ''a.ts'' tr Map.empty =
      (tr @ [GetContent ''octo'' ''demo'' ''a.ts'' ''c0ffee''], [''a.ts'' \<mapsto> ''const x = 42;''])" for tr
    by (simp add: fetch_cached_def fileCache_get_def Object_prototype_keys_def getFullFileContent_def
        ex_world_no_findings_def ex_world_def ex_pr_def)
  have ai: "getAIResponse ex_world_no_findings tr prompt = (tr @ [ChatCompletion prompt], Some (JArr []))"
    for tr prompt
    by (simp add: getAIResponse_def ex_world_no_findings_def ex_world_def response_text_def trim_def
        is_ws_def ex_answer_def ex_JSON_parse_def)
  have to: "to ex_file = Some ''a.ts''" and chunks: "chunks ex_file = [ex_chunk]"
    by (simp_all add: ex_file_def)
  have ac: "analyzeCode ex_world_no_findings tr [ex_file] ex_pr =
     (tr @ [GetContent ''octo'' ''demo'' ''a.ts'' ''c0ffee'',
            ChatCompletion (createPrompt ex_file ex_chunk ex_pr ''const x = 42;'')], Inr [])" for tr
    by (simp add: analyzeCode_def to chunks falsy_str_def fetch fileCache_get_def Let_def ai
        createComment_def)
  show ?thesis
    by (simp add: main_review_def pr ev fd falsy_str_def files ac)
qed

section \<open>The path filter\<close>

lemma filteredDiff_filter:
  "filteredDiff mm parsedDiff patterns =
     filter (\<lambda>f. \<not> (\<exists>pattern\<in>set patterns. mm (case to f of None \<Rightarrow> [] | Some p \<Rightarrow> p) pattern)) parsedDiff"
  by (simp add: filteredDiff_def list_ex_iff)

lemma count_list_filter:
  "count_list (filter P xs) x = (if P x then count_list xs x else 0)"
  by (induction xs) auto

lemma split_not_empty: "split d s \<noteq> []"
  by (induction s) (auto split: list.splits)

lemma excludePatterns_not_empty: "excludePatterns w \<noteq> []"
  by (simp add: excludePatterns_def split_not_empty)

lemma excludePatterns_unset: "exclude_input w = [] \<Longrightarrow> excludePatterns w = [[]]"
  by (simp add: excludePatterns_def trim_def)

lemma main_review_filters:
  assumes "getPRDetails w tr = (tr1, Inr prDetails)"
    and "readEvent w tr1 = Some eventData"
    and "fetch_diff w (tr1 @ [ReadEvent]) prDetails eventData = (tr2, Inr (Some (Some d)))"
    and "d \<noteq> []"
  shows "main_review w tr =
     (case analyzeCode w tr2
             (filter (\<lambda>f. \<not> (\<exists>pattern\<in>set (excludePatterns w).
                               minimatch w (case to f of None \<Rightarrow> [] | Some p \<Rightarrow> p) pattern))
                (parseDiff w d))
             prDetails of
        (tr3, Inl e) \<Rightarrow> (tr3, Inl e)
      | (tr3, Inr comments) \<Rightarrow> (tr3, Inr (Some (prDetails, comments))))"
  using assms
  by (simp add: main_review_def falsy_str_def filteredDiff_filter)

text \<open>
  C2, as the code has it. The filter of \<open>main\<close> is the list of file changes, in their
  order and with their repetitions, without exactly those whose target path (the empty
  string for an absent one) matches one of the patterns; when no pattern matches any
  target it drops nothing. A file change whose target is absent or the deletion sentinel
  stays unless a pattern matches it: such a file is skipped later, by \<open>analyzeCode\<close>.
  The list of patterns that \<open>main\<close> builds is never empty: with the \<open>exclude\<close>
  input unset it is the empty pattern alone. What \<open>main\<close> hands to \<open>analyzeCode\<close> is
  this filter of the parsed diff with that list of patterns.
\<close>

theorem filteredDiff_drops_matching:
  "filteredDiff mm parsedDiff patterns =
     filter (\<lambda>f. \<not> (\<exists>pattern\<in>set patterns. mm (case to f of None \<Rightarrow> [] | Some p \<Rightarrow> p) pattern))
       parsedDiff \<and>
   subseq (filteredDiff mm parsedDiff patterns) parsedDiff \<and>
   (\<forall>f. count_list (filteredDiff mm parsedDiff patterns) f =
      (if \<exists>pattern\<in>set patterns. mm (case to f of None \<Rightarrow> [] | Some p \<Rightarrow> p) pattern then 0
       else count_list parsedDiff f)) \<and>
   ((\<forall>f\<in>set parsedDiff. \<forall>pattern\<in>set patterns.
       \<not> mm (case to f of None \<Rightarrow> [] | Some p \<Rightarrow> p) pattern) \<longrightarrow>
      filteredDiff mm parsedDiff patterns = parsedDiff) \<and>
   excludePatterns w \<noteq> [] \<and>
   (exclude_input w = [] \<longrightarrow> excludePatterns w = [[]]) \<and>
   (getPRDetails w tr = (tr1, Inr prDetails) \<and> readEvent w tr1 = Some eventData \<and>
    fetch_diff w (tr1 @ [ReadEvent]) prDetails eventData = (tr2, Inr (Some (Some d))) \<and> d \<noteq> [] \<longrightarrow>
      main_review w tr =
        (case analyzeCode w tr2
                (filter (\<lambda>f. \<not> (\<exists>pattern\<in>set (excludePatterns w).
                                  minimatch w (case to f of None \<Rightarrow> [] | Some p \<Rightarrow> p) pattern))
                   (parseDiff w d))
                prDetails of
           (tr3, Inl e) \<Rightarrow> (tr3, Inl e)
         | (tr3, Inr comments) \<Rightarrow> (tr3, Inr (Some (prDetails, comments)))))"
proof (intro conjI)
  show eq: "filteredDiff mm parsedDiff patterns =
     filter (\<lambda>f. \<not> (\<exists>pattern\<in>set patterns. mm (case to f of None \<Rightarrow> [] | Some p \<Rightarrow> p) pattern))
       parsedDiff"
    by (rule filteredDiff_filter)
  show "subseq (filteredDiff mm parsedDiff patterns) parsedDiff"
    by (simp add: filteredDiff_def)
  show "\<forall>f. count_list (filteredDiff mm parsedDiff patterns) f =
      (if \<exists>pattern\<in>set patterns. mm (case to f of None \<Rightarrow> [] | Some p \<Rightarrow> p) pattern then 0
       else count_list parsedDiff f)"
    by (simp add: eq count_list_filter)
  show "(\<forall>f\<in>set parsedDiff. \<forall>pattern\<in>set patterns.
       \<not> mm (case to f of None \<Rightarrow> [] | Some p \<Rightarrow> p) pattern) \<longrightarrow>
      filteredDiff mm parsedDiff patterns = parsedDiff"
    by (auto simp add: eq filter_id_conv)
  show "excludePatterns w \<noteq> []"
    by (rule excludePatterns_not_empty)
  show "exclude_input w = [] \<longrightarrow> excludePatterns w = [[]]"
    by (simp add: excludePatterns_unset)
  show "getPRDetails w tr = (tr1, Inr prDetails) \<and> readEvent w tr1 = Some eventData \<and>
    fetch_diff w (tr1 @ [ReadEvent]) prDetails eventData = (tr2, Inr (Some (Some d))) \<and> d \<noteq> [] \<longrightarrow>
      main_review w tr =
        (case analyzeCode w tr2
                (filter (\<lambda>f. \<not> (\<exists>pattern\<in>set (excludePatterns w).
                                  minimatch w (case to f of None \<Rightarrow> [] | Some p \<Rightarrow> p) pattern))
                   (parseDiff w d))
                prDetails of
           (tr3, Inl e) \<Rightarrow> (tr3, Inl e)
         | (tr3, Inr comments) \<Rightarrow> (tr3, Inr (Some (prDetails, comments))))"
    using main_review_filters [of w tr tr1 prDetails eventData tr2 d] by blast
qed

theorem filteredDiff_drops_matching_witness:
  "filteredDiff ex_minimatch [ex_file, ex_file\<lparr>to := Some ''README.md''\<rparr>, ex_file] [''*.md''] =
     [ex_file, ex_file] \<and>
   count_list (filteredDiff ex_minimatch [ex_file, ex_file\<lparr>to := Some ''README.md''\<rparr>, ex_file] [''*.md''])
     ex_file = 2 \<and>
   \<not> ex_minimatch [] ''*.md'' \<and> \<not> ex_minimatch ''/dev/null'' ''*.md'' \<and> \<not> ex_minimatch ''a.ts'' ''*.md'' \<and>
   filteredDiff ex_minimatch [ex_no_target, ex_deleted, ex_file] [''*.md''] =
     [ex_no_target, ex_deleted, ex_file] \<and>
   exclude_input ex_world = [] \<and> excludePatterns ex_world = [[]] \<and>
   filteredDiff ex_minimatch [ex_no_target, ex_deleted, ex_file] (excludePatterns ex_world) =
     [ex_deleted, ex_file] \<and>
   getPRDetails ex_world [] = ([ReadEvent, PullsGet ''octo'' ''demo'' 7], Inr ex_pr) \<and>
   readEvent ex_world [ReadEvent, PullsGet ''octo'' ''demo'' 7] = Some ex_event \<and>
   fetch_diff ex_world [ReadEvent, PullsGet ''octo'' ''demo'' 7, ReadEvent] ex_pr ex_event =
     ([ReadEvent, PullsGet ''octo'' ''demo'' 7, ReadEvent, PullsGetDiff ''octo'' ''demo'' 7],
      Inr (Some (Some ''DIFF''))) \<and>
   main_review ex_world [] =
     ([ReadEvent, PullsGet ''octo'' ''demo'' 7, ReadEvent, PullsGetDiff ''octo'' ''demo'' 7,
       GetContent ''octo'' ''demo'' ''a.ts'' ''c0ffee'',
       ChatCompletion (createPrompt ex_file ex_chunk ex_pr ''const x = 42;'')],
      Inr (Some (ex_pr, [ex_comment])))"
proof -
  let ?A = "[ex_file, ex_file\<lparr>to := Some ''README.md''\<rparr>, ex_file]"
  let ?B = "[ex_no_target, ex_deleted, ex_file]"
  let ?tr1 = "[ReadEvent, PullsGet ''octo'' ''demo'' 7]"
  let ?tr2 = "[ReadEvent, PullsGet ''octo'' ''demo'' 7, ReadEvent, PullsGetDiff ''octo'' ''demo'' 7]"
  have none: "\<forall>f\<in>set ?B. \<forall>pattern\<in>set [''*.md''].
      \<not> ex_minimatch (case to f of None \<Rightarrow> [] | Some p \<Rightarrow> p) pattern"
    by (simp add: ex_minimatch_def ex_no_target_def ex_deleted_def ex_file_def)
  have unset: "exclude_input ex_world = []"
    by (simp add: ex_world_def)
  have ev: "readEvent ex_world ?tr1 = Some ex_event"
    by (simp add: ex_world_def)
  have fd: "fetch_diff ex_world (?tr1 @ [ReadEvent]) ex_pr ex_event = (?tr2, Inr (Some (Some ''DIFF'')))"
    by (simp add: fetch_diff_def getDiff_def ex_event_def ex_world_def ex_pr_def)
  note a = filteredDiff_drops_matching
    [of ex_minimatch ?A "[''*.md'']" ex_world "[]" ?tr1 ex_pr ex_event ?tr2 "''DIFF''"]
  note b = filteredDiff_drops_matching
    [of ex_minimatch ?B "[''*.md'']" ex_world "[]" ?tr1 ex_pr ex_event ?tr2 "''DIFF''"]
  note c = filteredDiff_drops_matching
    [of ex_minimatch ?B "excludePatterns ex_world" ex_world "[]" ?tr1 ex_pr ex_event ?tr2 "''DIFF''"]
  have A: "filteredDiff ex_minimatch ?A [''*.md''] = [ex_file, ex_file]"
    using a by (simp add: ex_minimatch_def ex_file_def)
  have A2: "count_list (filteredDiff ex_minimatch ?A [''*.md'']) ex_file = 2"
    using a by (simp add: ex_minimatch_def ex_file_def)
  have B: "filteredDiff ex_minimatch ?B [''*.md''] = ?B"
    using b none by blast
  have pats: "excludePatterns ex_world = [[]]"
    using c unset by blast
  have C: "filteredDiff ex_minimatch ?B (excludePatterns ex_world) = [ex_deleted, ex_file]"
    using c by (simp add: pats ex_minimatch_def ex_no_target_def ex_deleted_def ex_file_def)
  have mr: "main_review ex_world [] =
      (case analyzeCode ex_world ?tr2
              (filter (\<lambda>f. \<not> (\<exists>pattern\<in>set (excludePatterns ex_world).
                                minimatch ex_world (case to f of None \<Rightarrow> [] | Some p \<Rightarrow> p) pattern))
                 (parseDiff ex_world ''DIFF''))
              ex_pr of
         (tr3, Inl e) \<Rightarrow> (tr3, Inl e)
       | (tr3, Inr comments) \<Rightarrow> (tr3, Inr (Some (ex_pr, comments))))"
    using c getPRDetails_example ev fd by simp
  have files: "filter (\<lambda>f. \<not> (\<exists>pattern\<in>set (excludePatterns ex_world).
                                minimatch ex_world (case to f of None \<Rightarrow> [] | Some p \<Rightarrow> p) pattern))
                 (parseDiff ex_world ''DIFF'') = [ex_file]"
    by (simp add: pats) (simp add: ex_world_def ex_minimatch_def ex_file_def)
  have M: "main_review ex_world [] =
     (?tr2 @ [GetContent ''octo'' ''demo'' ''a.ts'' ''c0ffee'',
              ChatCompletion (createPrompt ex_file ex_chunk ex_pr ''const x = 42;'')],
      Inr (Some (ex_pr, [ex_comment])))"
    by (simp only: mr files analyzeCode_example) simp
  have m: "\<not> ex_minimatch [] ''*.md'' \<and> \<not> ex_minimatch ''/dev/null'' ''*.md'' \<and> \<not> ex_minimatch ''a.ts'' ''*.md''"
    by (simp add: ex_minimatch_def)
  from A A2 m B unset pats C getPRDetails_example ev fd M show ?thesis
    by simp
qed

text \<open>
  The claim as stated fails: with the pattern \<open>*.md\<close>, a file change without a target
  and a deleted file both pass the filter.
\<close>

theorem filteredDiff_keeps_null_counterexample:
  "filteredDiff ex_minimatch [ex_no_target, ex_deleted] [''*.md''] = [ex_no_target, ex_deleted]"
  by (simp add: filteredDiff_def ex_minimatch_def ex_no_target_def ex_deleted_def)

section \<open>The orchestrator: unsupported events\<close>

text \<open>
  C3, as the code has it. \<open>main\<close> asks for the pull request before it looks at the
  event's action. When the payload can be read, that request succeeds and the action is
  neither \<open>opened\<close> nor \<open>synchronize\<close>, the run reads the payload, asks for the pull
  request, reads the payload again, logs the unsupported event and exits with status 0:
  it fetches no diff and no file, asks for no completion and submits no review.
\<close>

theorem unsupported_event_run:
  assumes "readEvent w [] = Some ev1"
    and "pulls_get w [ReadEvent] (repository_owner_login ev1) (repository_name ev1) (number ev1) = Resolved d"
    and "readEvent w [ReadEvent, PullsGet (repository_owner_login ev1) (repository_name ev1) (number ev1)] =
         Some ev2"
    and "action ev2 \<noteq> Some ''opened''"
    and "action ev2 \<noteq> Some ''synchronize''"
  shows "run w =
     ([ReadEvent, PullsGet (repository_owner_login ev1) (repository_name ev1) (number ev1), ReadEvent,
       ConsoleLog ''Unsupported event:''], 0)"
  using assms
  by (simp add: run_def main_def main_review_def getPRDetails_def fetch_diff_def)

theorem unsupported_event_run_witness:
  "run ex_world_closed =
     ([ReadEvent, PullsGet ''octo'' ''demo'' 7, ReadEvent, ConsoleLog ''Unsupported event:''], 0)"
  using unsupported_event_run [of ex_world_closed "ex_event\<lparr>action := Some ''closed''\<rparr>"
      "\<lparr>pr_title = Some ''Add x'', pr_body = None, head_sha = ''c0ffee''\<rparr>" "ex_event\<lparr>action := Some ''closed''\<rparr>"]
  by (simp add: ex_world_closed_def ex_world_def ex_event_def)

text \<open>
  The claim as stated fails: for a closed pull request the run makes one request to the
  platform, the one for the pull request; and when that request fails the run ends with
  an error and status 1.
\<close>

theorem unsupported_event_api_call_counterexample:
  "filter is_api_call (fst (run ex_world_closed)) = [PullsGet ''octo'' ''demo'' 7] \<and>
   run ex_world_closed_offline =
     ([ReadEvent, PullsGet ''octo'' ''demo'' 7, ConsoleError ''Unhandled error:''], 1)"
  by (simp add: run_def main_def main_review_def getPRDetails_def fetch_diff_def
      ex_world_closed_offline_def ex_world_closed_def ex_world_def ex_event_def)

section \<open>The review requester\<close>

lemma dropWhile_blank: "list_all is_ws c \<Longrightarrow> dropWhile is_ws c = []"
  by (induction c) simp_all

lemma trim_blank: "list_all is_ws c \<Longrightarrow> trim c = []"
  by (simp add: trim_def dropWhile_blank)

lemma response_text_blank: "blank_content choice0 \<Longrightarrow> response_text choice0 = ''{}''"
  by (auto simp add: blank_content_def response_text_def trim_blank split: option.splits)

lemma analyzeCode_chunks_no_findings:
  assumes "snd (getAIResponse w tr (createPrompt f chunk prDetails fullFile)) = None \<or>
           snd (getAIResponse w tr (createPrompt f chunk prDetails fullFile)) = Some JNull"
  shows "analyzeCode_chunks w f prDetails fullFile (chunk # rest) tr comments =
         analyzeCode_chunks w f prDetails fullFile rest
           (fst (getAIResponse w tr (createPrompt f chunk prDetails fullFile))) comments"
proof (cases "getAIResponse w tr (createPrompt f chunk prDetails fullFile)")
  case (Pair tr1 r)
  with assms show ?thesis by auto
qed

text \<open>
  C4, as the code has it. When the completion step fails, \<open>getAIResponse\<close> returns
  without throwing and the hunk gives no comment: the loop goes on with the next hunk,
  its comments unchanged. A rejected request, an answer without a choice, a text that is
  not JSON and the JSON \<open>null\<close> are caught, logged with \<open>console.error\<close> and give
  null. A parsed answer that has no \<open>reviews\<close> throws nothing: it gives undefined and
  nothing is logged.
\<close>

theorem getAIResponse_failure_isolated:
  assumes "completion_failure w tr prompt = Some k"
  shows "getAIResponse w tr prompt =
           (if k = MissingReviews then (tr @ [ChatCompletion prompt], None)
            else (tr @ [ChatCompletion prompt, ConsoleError ''AI error:''], Some JNull)) \<and>
         (prompt = createPrompt f chunk prDetails fullFile \<longrightarrow>
            analyzeCode_chunks w f prDetails fullFile (chunk # rest) tr comments =
            analyzeCode_chunks w f prDetails fullFile rest (fst (getAIResponse w tr prompt)) comments)"
proof -
  have r: "getAIResponse w tr prompt =
           (if k = MissingReviews then (tr @ [ChatCompletion prompt], None)
            else (tr @ [ChatCompletion prompt, ConsoleError ''AI error:''], Some JNull))"
    using assms
    by (auto simp add: completion_failure_def getAIResponse_def Let_def
        split: response.splits list.splits option.splits json.splits if_splits)
  then have "snd (getAIResponse w tr prompt) = None \<or> snd (getAIResponse w tr prompt) = Some JNull"
    by (simp split: if_splits)
  then show ?thesis
    using r analyzeCode_chunks_no_findings [of w tr f chunk prDetails fullFile rest comments] by blast
qed

theorem getAIResponse_failure_isolated_witness:
  "completion_failure ex_world_not_json [] (createPrompt ex_file ex_chunk ex_pr []) = Some NotJSON \<and>
   getAIResponse ex_world_not_json [] (createPrompt ex_file ex_chunk ex_pr []) =
     ([ChatCompletion (createPrompt ex_file ex_chunk ex_pr []), ConsoleError ''AI error:''], Some JNull) \<and>
   analyzeCode_chunks ex_world_not_json ex_file ex_pr [] [ex_chunk] [] [] =
     ([ChatCompletion (createPrompt ex_file ex_chunk ex_pr []), ConsoleError ''AI error:''], Inr [])"
proof -
  have k: "completion_failure ex_world_not_json [] (createPrompt ex_file ex_chunk ex_pr []) = Some NotJSON"
    by (simp add: completion_failure_def ex_world_not_json_def ex_world_def response_text_def trim_def
        is_ws_def ex_JSON_parse_def ex_answer_def)
  show ?thesis
    using getAIResponse_failure_isolated [OF k, of ex_file ex_chunk ex_pr "[]" "[]" "[]"] k
    by simp
qed

text \<open>
  The claim as stated fails where it says that every failure is logged: for the answer
  \<open>{}\<close>, which has no \<open>reviews\<close>, the trace of \<open>getAIResponse\<close> is the request
  alone.
\<close>

theorem getAIResponse_missing_reviews_counterexample:
  "completion_failure ex_world_empty_object [] ''p'' = Some MissingReviews \<and>
   getAIResponse ex_world_empty_object [] ''p'' = ([ChatCompletion ''p''], None)"
  by (simp add: completion_failure_def getAIResponse_def ex_world_empty_object_def ex_world_def
      response_text_def trim_def is_ws_def ex_JSON_parse_def)

text \<open>
  C10. When the request succeeds and the first choice has no message, no content, or a
  content that is empty or white space only, \<open>getAIResponse\<close> parses \<open>{}\<close> in its
  place and returns undefined, the \<open>reviews\<close> of the empty object, without logging
  anything; the hunk gives no comment and the loop goes on with the next hunk.
\<close>

theorem blank_content_gives_no_findings:
  assumes "JSON_parse w ''{}'' = Some (JObj [])"
    and "chat_completions_create w tr prompt = Resolved (choice0 # others)"
    and "blank_content choice0"
  shows "getAIResponse w tr prompt = (tr @ [ChatCompletion prompt], None) \<and>
         (prompt = createPrompt f chunk prDetails fullFile \<longrightarrow>
            analyzeCode_chunks w f prDetails fullFile (chunk # rest) tr comments =
            analyzeCode_chunks w f prDetails fullFile rest (tr @ [ChatCompletion prompt]) comments)"
proof -
  have r: "getAIResponse w tr prompt = (tr @ [ChatCompletion prompt], None)"
    using assms by (simp add: getAIResponse_def response_text_blank)
  then show ?thesis
    using analyzeCode_chunks_no_findings [of w tr f chunk prDetails fullFile rest comments] by auto
qed

theorem blank_content_gives_no_findings_witness:
  "JSON_parse ex_world_blank ''{}'' = Some (JObj []) \<and>
   chat_completions_create ex_world_blank [] (createPrompt ex_file ex_chunk ex_pr []) =
     Resolved [Some (Some ''  '')] \<and>
   blank_content (Some (Some ''  '')) \<and>
   getAIResponse ex_world_blank [] (createPrompt ex_file ex_chunk ex_pr []) =
     ([ChatCompletion (createPrompt ex_file ex_chunk ex_pr [])], None) \<and>
   analyzeCode_chunks ex_world_blank ex_file ex_pr [] [ex_chunk] [] [] =
     ([ChatCompletion (createPrompt ex_file ex_chunk ex_pr [])], Inr [])"
proof -
  have p: "JSON_parse ex_world_blank ''{}'' = Some (JObj [])"
    by (simp add: ex_world_blank_def ex_world_def ex_JSON_parse_def)
  have c: "chat_completions_create ex_world_blank [] (createPrompt ex_file ex_chunk ex_pr []) =
     Resolved [Some (Some ''  '')]"
    by (simp add: ex_world_blank_def ex_world_def)
  have b: "blank_content (Some (Some ''  ''))"
    by (simp add: blank_content_def is_ws_def)
  show ?thesis
    using blank_content_gives_no_findings
      [OF p c b, of ex_file ex_chunk ex_pr "[]" "[]" "[]"] p c b
    by simp
qed

section \<open>What the trace of a run can hold\<close>

lemma getAIResponse_no_review:
  "filter is_CreateReview (fst (getAIResponse w tr prompt)) = filter is_CreateReview tr"
  by (simp add: getAIResponse_def Let_def split: response.splits list.splits option.splits sum.splits)

lemma analyzeCode_chunks_no_review:
  "filter is_CreateReview (fst (analyzeCode_chunks w f prDetails fullFile cs tr comments)) =
   filter is_CreateReview tr"
proof (induction cs arbitrary: tr comments)
  case Nil
  show ?case by simp
next
  case (Cons chunk rest)
  obtain tr1 r where ai: "getAIResponse w tr (createPrompt f chunk prDetails fullFile) = (tr1, r)"
    by (cases "getAIResponse w tr (createPrompt f chunk prDetails fullFile)")
  have tr1: "filter is_CreateReview tr1 = filter is_CreateReview tr"
    using getAIResponse_no_review [of w tr "createPrompt f chunk prDetails fullFile"] ai by simp
  show ?case
    using ai tr1 Cons.IH by (simp split: option.splits sum.splits)
qed

lemma getFullFileContent_trace:
  "fst (getFullFileContent w tr o' r p h) = tr @ [GetContent o' r p h]"
  by (simp add: getFullFileContent_def split: response.splits option.splits)

lemma fetch_cached_no_review:
  "filter is_CreateReview (fst (fetch_cached w prDetails p tr fileCache)) = filter is_CreateReview tr"
proof (cases "getFullFileContent w tr (owner prDetails) (repo prDetails) p (headSha prDetails)")
  case (Pair tr1 res)
  then have "tr1 = tr @ [GetContent (owner prDetails) (repo prDetails) p (headSha prDetails)]"
    using getFullFileContent_trace [of w tr "owner prDetails" "repo prDetails" p "headSha prDetails"]
    by simp
  with Pair show ?thesis
    by (cases res) (simp_all add: fetch_cached_def)
qed

lemma analyzeCode_files_no_review:
  "filter is_CreateReview (fst (analyzeCode_files w prDetails files tr comments fileCache)) =
   filter is_CreateReview tr"
proof (induction files arbitrary: tr comments fileCache)
  case Nil
  show ?case by simp
next
  case (Cons f rest)
  obtain tr1 fc1 where fc: "fetch_cached w prDetails (the (to f)) tr fileCache = (tr1, fc1)"
    by (cases "fetch_cached w prDetails (the (to f)) tr fileCache")
  have tr1: "filter is_CreateReview tr1 = filter is_CreateReview tr"
    using fetch_cached_no_review [of w prDetails "the (to f)" tr fileCache] fc by simp
  obtain tr2 res where ch:
    "analyzeCode_chunks w f prDetails (cached_text w (the (to f)) (fileCache_get fc1 (the (to f))))
       (chunks f) tr1 comments = (tr2, res)"
    by (cases "analyzeCode_chunks w f prDetails (cached_text w (the (to f)) (fileCache_get fc1 (the (to f))))
       (chunks f) tr1 comments")
  have tr2: "filter is_CreateReview tr2 = filter is_CreateReview tr1"
    using analyzeCode_chunks_no_review
      [of w f prDetails "cached_text w (the (to f)) (fileCache_get fc1 (the (to f)))" "chunks f" tr1 comments] ch
    by simp
  show ?case
    using fc ch tr1 tr2 Cons.IH by (simp split: sum.splits)
qed

lemma getPRDetails_no_review:
  "filter is_CreateReview (fst (getPRDetails w tr)) = filter is_CreateReview tr"
  by (simp add: getPRDetails_def Let_def split: option.splits response.splits)

lemma fetch_diff_no_review:
  "filter is_CreateReview (fst (fetch_diff w tr prDetails eventData)) = filter is_CreateReview tr"
  by (simp add: fetch_diff_def getDiff_def split: response.splits)

lemma analyzeCode_no_review:
  "filter is_CreateReview (fst (analyzeCode w tr files prDetails)) = filter is_CreateReview tr"
  by (simp add: analyzeCode_def analyzeCode_files_no_review)

lemma main_review_no_review:
  "filter is_CreateReview (fst (main_review w tr)) = filter is_CreateReview tr"
proof (cases "getPRDetails w tr")
  case (Pair tr1 r1)
  then have tr1: "filter is_CreateReview tr1 = filter is_CreateReview tr"
    using getPRDetails_no_review [of w tr] by simp
  show ?thesis
  proof (cases r1)
    case (Inl e)
    with Pair tr1 show ?thesis by (simp add: main_review_def)
  next
    case (Inr prDetails)
    show ?thesis
    proof (cases "readEvent w tr1")
      case None
      with Pair Inr tr1 show ?thesis by (simp add: main_review_def)
    next
      case (Some eventData)
      obtain tr2 r2 where fd: "fetch_diff w (tr1 @ [ReadEvent]) prDetails eventData = (tr2, r2)"
        by (cases "fetch_diff w (tr1 @ [ReadEvent]) prDetails eventData")
      have tr2: "filter is_CreateReview tr2 = filter is_CreateReview tr"
        using fetch_diff_no_review [of w "tr1 @ [ReadEvent]" prDetails eventData] fd tr1 by simp
      show ?thesis
      proof (cases r2)
        case (Inl e)
        with Pair Inr Some fd tr2 show ?thesis by (simp add: main_review_def)
      next
        case r2: (Inr d)
        show ?thesis
        proof (cases d)
          case None
          with Pair Inr Some fd tr2 r2 show ?thesis by (simp add: main_review_def)
        next
          case d: (Some diff)
          show ?thesis
          proof (cases "falsy_str diff")
            case True
            with Pair Inr Some fd tr2 r2 d show ?thesis by (simp add: main_review_def)
          next
            case False
            obtain tr3 r3 where ac:
              "analyzeCode w tr2 (filteredDiff (minimatch w) (parseDiff w (the diff)) (excludePatterns w))
                 prDetails = (tr3, r3)"
              by (cases "analyzeCode w tr2
                    (filteredDiff (minimatch w) (parseDiff w (the diff)) (excludePatterns w)) prDetails")
            have "filter is_CreateReview tr3 = filter is_CreateReview tr"
              using analyzeCode_no_review
                [of w tr2 "filteredDiff (minimatch w) (parseDiff w (the diff)) (excludePatterns w)" prDetails]
                ac tr2 by simp
            with Pair Inr Some fd r2 d False ac show ?thesis
              by (cases r3) (simp_all add: main_review_def)
          qed
        qed
      qed
    qed
  qed
qed

lemma run_create_review_events:
  "filter is_CreateReview (fst (run w)) =
     (case main_review w [] of
        (tr, Inr (Some (prDetails, comments))) \<Rightarrow>
          if comments = [] then []
          else [CreateReview (owner prDetails) (repo prDetails) (pull_number prDetails) comments ''COMMENT'']
      | _ \<Rightarrow> [])"
proof -
  obtain tr res where mr: "main_review w [] = (tr, res)"
    by (cases "main_review w []")
  have tr: "filter is_CreateReview tr = []"
    using main_review_no_review [of w "[]"] mr by simp
  show ?thesis
  proof (cases res)
    case (Inl e)
    with mr tr show ?thesis by (simp add: run_def main_def)
  next
    case (Inr v)
    show ?thesis
    proof (cases v)
      case None
      with mr tr Inr show ?thesis by (simp add: run_def main_def)
    next
      case (Some pc)
      obtain prDetails comments where pc: "pc = (prDetails, comments)"
        by (cases pc)
      show ?thesis
      proof (cases "comments = []")
        case True
        with mr tr Inr Some pc show ?thesis by (simp add: run_def main_def)
      next
        case False
        with mr tr Inr Some pc show ?thesis
          by (cases "createReview w tr (owner prDetails) (repo prDetails) (pull_number prDetails) comments")
            (simp_all add: run_def main_def createReviewComment_def)
      qed
    qed
  qed
qed

lemma main_review_comments:
  assumes "main_review w tr = (tr', Inr (Some (prDetails, comments)))"
  shows "\<exists>tr2 files. analyzeCode w tr2 files prDetails = (tr', Inr comments)"
proof -
  obtain tr1 r1 where pr: "getPRDetails w tr = (tr1, r1)"
    by (cases "getPRDetails w tr")
  with assms obtain prDetails' where r1: "r1 = Inr prDetails'"
    by (cases r1) (simp_all add: main_review_def)
  from assms pr r1 obtain eventData where ev: "readEvent w tr1 = Some eventData"
    by (cases "readEvent w tr1") (simp_all add: main_review_def)
  obtain tr2 r2 where fd: "fetch_diff w (tr1 @ [ReadEvent]) prDetails' eventData = (tr2, r2)"
    by (cases "fetch_diff w (tr1 @ [ReadEvent]) prDetails' eventData")
  from assms pr r1 ev fd obtain d where r2: "r2 = Inr (Some d)"
    by (cases r2; cases "projr r2") (simp_all add: main_review_def)
  from assms pr r1 ev fd r2 have nf: "\<not> falsy_str d"
    by (cases "falsy_str d") (simp_all add: main_review_def)
  obtain tr3 r3 where ac:
    "analyzeCode w tr2 (filteredDiff (minimatch w) (parseDiff w (the d)) (excludePatterns w)) prDetails' =
       (tr3, r3)"
    by (cases "analyzeCode w tr2 (filteredDiff (minimatch w) (parseDiff w (the d)) (excludePatterns w))
          prDetails'")
  from assms pr r1 ev fd r2 nf ac have "r3 = Inr comments \<and> tr3 = tr' \<and> prDetails' = prDetails"
    by (cases r3) (simp_all add: main_review_def)
  with ac show ?thesis by blast
qed

lemma submitted_comments:
  assumes "CreateReview o' r n cs e \<in> set (fst (run w))"
  shows "\<exists>tr tr2 files prDetails. analyzeCode w tr2 files prDetails = (tr, Inr cs)"
proof -
  from assms have "CreateReview o' r n cs e \<in> set (filter is_CreateReview (fst (run w)))"
    by simp
  moreover obtain tr res where mr: "main_review w [] = (tr, res)"
    by (cases "main_review w []")
  ultimately have "\<exists>prDetails. res = Inr (Some (prDetails, cs))"
    unfolding run_create_review_events
    by (auto split: sum.splits option.splits if_splits)
  with mr show ?thesis
    using main_review_comments by blast
qed

lemma run_example:
  "run ex_world =
     ([ReadEvent, PullsGet ''octo'' ''demo'' 7, ReadEvent, PullsGetDiff ''octo'' ''demo'' 7,
       GetContent ''octo'' ''demo'' ''a.ts'' ''c0ffee'',
       ChatCompletion (createPrompt ex_file ex_chunk ex_pr ''const x = 42;''),
       CreateReview ''octo'' ''demo'' 7 [ex_comment] ''COMMENT''], 0)"
proof -
  have cr: "createReview ex_world tr o' r n cs = Resolved ()" for tr o' r n cs
    by (simp add: ex_world_def)
  show ?thesis
    by (simp add: run_def main_def main_review_example createReviewComment_def cr ex_pr_def)
qed

section \<open>The file content cache\<close>

text \<open>
  C5 fails on the code. The cache is tested with \<open>!fileCache[file.to]\<close>, and the empty
  string that is stored after a failed fetch is falsy: when the diff names \<open>a.ts\<close>
  twice and its content cannot be fetched, the content is requested twice.
\<close>

theorem empty_fallback_fetched_again:
  "analyzeCode ex_world_no_content [] [ex_file, ex_file] ex_pr =
     ([GetContent ''octo'' ''demo'' ''a.ts'' ''c0ffee'',
       ConsoleWarn ''Unable to fetch full file content for a.ts'',
       ChatCompletion (createPrompt ex_file ex_chunk ex_pr []),
       GetContent ''octo'' ''demo'' ''a.ts'' ''c0ffee'',
       ConsoleWarn ''Unable to fetch full file content for a.ts'',
       ChatCompletion (createPrompt ex_file ex_chunk ex_pr [])],
      Inr [ex_comment, ex_comment])"
proof -
  have fetch: "fetch_cached ex_world_no_content ex_pr ''a.ts'' tr fc =
      (tr @ [GetContent ''octo'' ''demo'' ''a.ts'' ''c0ffee'',
             ConsoleWarn ''Unable to fetch full file content for a.ts''], fc(''a.ts'' \<mapsto> []))"
    if "fc ''a.ts'' = None \<or> fc ''a.ts'' = Some []" for tr fc
    using that
    by (auto simp add: fetch_cached_def fileCache_get_def Object_prototype_keys_def getFullFileContent_def
        ex_world_no_content_def ex_world_def ex_pr_def)
  have to: "to ex_file = Some ''a.ts''" and chunks: "chunks ex_file = [ex_chunk]"
    by (simp_all add: ex_file_def)
  show ?thesis
    by (simp add: analyzeCode_def to chunks falsy_str_def fetch fileCache_get_def Let_def
        getAIResponse_no_content_example createComment_example)
qed

lemma getAIResponse_no_fetch:
  "filter (fetches p) (fst (getAIResponse w tr prompt)) = filter (fetches p) tr"
  by (simp add: getAIResponse_def Let_def split: response.splits list.splits option.splits sum.splits)

lemma analyzeCode_chunks_no_fetch:
  "filter (fetches p) (fst (analyzeCode_chunks w f prDetails fullFile cs tr comments)) =
   filter (fetches p) tr"
proof (induction cs arbitrary: tr comments)
  case Nil
  show ?case by simp
next
  case (Cons chunk rest)
  obtain tr1 r where ai: "getAIResponse w tr (createPrompt f chunk prDetails fullFile) = (tr1, r)"
    by (cases "getAIResponse w tr (createPrompt f chunk prDetails fullFile)")
  have tr1: "filter (fetches p) tr1 = filter (fetches p) tr"
    using getAIResponse_no_fetch [of p w tr "createPrompt f chunk prDetails fullFile"] ai by simp
  show ?case
    using ai tr1 Cons.IH by (simp split: option.splits sum.splits)
qed

lemma fetch_cached_fetches:
  "length (filter (fetches p) (fst (fetch_cached w prDetails p' tr fileCache))) \<le>
   length (filter (fetches p) tr) + (if p' = p then 1 else 0)"
proof (cases "getFullFileContent w tr (owner prDetails) (repo prDetails) p' (headSha prDetails)")
  case (Pair tr1 res)
  then have "tr1 = tr @ [GetContent (owner prDetails) (repo prDetails) p' (headSha prDetails)]"
    using getFullFileContent_trace [of w tr "owner prDetails" "repo prDetails" p' "headSha prDetails"]
    by simp
  with Pair show ?thesis
    by (cases res) (auto simp add: fetch_cached_def)
qed

lemma fetch_cached_hit:
  "fileCache p = Some v \<Longrightarrow> v \<noteq> [] \<Longrightarrow> fetch_cached w prDetails p tr fileCache = (tr, fileCache)"
  by (simp add: fetch_cached_def fileCache_get_def)

lemma analyzeCode_files_fetches:
  "length (filter (fetches p) (fst (analyzeCode_files w prDetails files tr comments fileCache))) \<le>
   length (filter (fetches p) tr) + length (filter (\<lambda>f. reviewable f \<and> to f = Some p) files)"
proof (induction files arbitrary: tr comments fileCache)
  case Nil
  show ?case by simp
next
  case (Cons f rest)
  show ?case
  proof (cases "reviewable f")
    case False
    then have "analyzeCode_files w prDetails (f # rest) tr comments fileCache =
               analyzeCode_files w prDetails rest tr comments fileCache"
      by (auto simp add: reviewable_def)
    with False Cons.IH [of tr comments fileCache] show ?thesis by simp
  next
    case True
    then obtain q where q: "to f = Some q" and nf: "\<not> falsy_str (to f)" and nd: "to f \<noteq> Some ''/dev/null''"
      by (cases "to f") (auto simp add: reviewable_def falsy_str_def)
    obtain tr1 fc1 where fc: "fetch_cached w prDetails q tr fileCache = (tr1, fc1)"
      by (cases "fetch_cached w prDetails q tr fileCache")
    have tr1: "length (filter (fetches p) tr1) \<le> length (filter (fetches p) tr) + (if q = p then 1 else 0)"
      using fetch_cached_fetches [of p w prDetails q tr fileCache] fc by simp
    obtain tr2 res where ch:
      "analyzeCode_chunks w f prDetails (cached_text w q (fileCache_get fc1 q)) (chunks f) tr1 comments =
         (tr2, res)"
      by (cases "analyzeCode_chunks w f prDetails (cached_text w q (fileCache_get fc1 q)) (chunks f) tr1
            comments")
    have tr2: "filter (fetches p) tr2 = filter (fetches p) tr1"
      using analyzeCode_chunks_no_fetch
        [of p w f prDetails "cached_text w q (fileCache_get fc1 q)" "chunks f" tr1 comments] ch
      by simp
    show ?thesis
    proof (cases res)
      case (Inl e)
      with q nf nd fc ch tr1 tr2 True show ?thesis by auto
    next
      case (Inr mid)
      have "length (filter (fetches p) (fst (analyzeCode_files w prDetails rest tr2 mid fc1))) \<le>
            length (filter (fetches p) tr2) + length (filter (\<lambda>f. reviewable f \<and> to f = Some p) rest)"
        by (rule Cons.IH)
      with Inr q nf nd fc ch tr1 tr2 True show ?thesis by auto
    qed
  qed
qed

text \<open>
  What the cache does guarantee: every file change of the diff asks for the content of its
  file at most once, whatever the number of its hunks, so a path is fetched at most once
  when no two reviewable file changes share a target; and a path whose cached text is not
  empty is not fetched again.
\<close>

theorem one_fetch_per_file_entry:
  "length (filter (fetches p) (fst (analyzeCode w [] files prDetails))) \<le>
     length (filter (\<lambda>f. reviewable f \<and> to f = Some p) files) \<and>
   (distinct (map to (filter reviewable files)) \<longrightarrow>
      length (filter (fetches p) (fst (analyzeCode w [] files prDetails))) \<le> 1) \<and>
   (\<forall>v tr fileCache. fileCache p = Some v \<and> v \<noteq> [] \<longrightarrow>
      fetch_cached w prDetails p tr fileCache = (tr, fileCache))"
proof (intro conjI)
  show bound: "length (filter (fetches p) (fst (analyzeCode w [] files prDetails))) \<le>
     length (filter (\<lambda>f. reviewable f \<and> to f = Some p) files)"
    using analyzeCode_files_fetches [of p w prDetails files "[]" "[]" Map.empty]
    by (simp add: analyzeCode_def)
  show "distinct (map to (filter reviewable files)) \<longrightarrow>
      length (filter (fetches p) (fst (analyzeCode w [] files prDetails))) \<le> 1"
  proof
    assume d: "distinct (map to (filter reviewable files))"
    have eq: "filter (\<lambda>f. reviewable f \<and> to f = Some p) files =
          filter (\<lambda>f. to f = Some p) (filter reviewable files)"
      by (induction files) auto
    have one: "length (filter (\<lambda>f. to f = Some p) fs) \<le> 1" if "distinct (map to fs)" for fs :: "File list"
      using that by (induction fs) (auto simp add: filter_empty_conv image_iff)
    have "length (filter (\<lambda>f. reviewable f \<and> to f = Some p) files) \<le> 1"
      unfolding eq using d by (rule one)
    with bound show "length (filter (fetches p) (fst (analyzeCode w [] files prDetails))) \<le> 1"
      by simp
  qed
  show "\<forall>v tr fileCache. fileCache p = Some v \<and> v \<noteq> [] \<longrightarrow>
      fetch_cached w prDetails p tr fileCache = (tr, fileCache)"
    by (simp add: fetch_cached_hit)
qed

theorem one_fetch_per_file_entry_witness:
  "distinct (map to (filter reviewable [ex_deleted, ex_file])) \<and>
   length (filter (fetches ''a.ts'') (fst (analyzeCode ex_world [] [ex_deleted, ex_file] ex_pr))) = 1 \<and>
   fetch_cached ex_world ex_pr ''a.ts'' [] [''a.ts'' \<mapsto> ''const x = 42;''] =
     ([], [''a.ts'' \<mapsto> ''const x = 42;''])"
proof -
  have f: "filter reviewable [ex_deleted, ex_file] = [ex_file]"
    by (simp add: reviewable_def falsy_str_def ex_deleted_def ex_file_def)
  have a: "analyzeCode ex_world [] [ex_deleted, ex_file] ex_pr = analyzeCode ex_world [] [ex_file] ex_pr"
    by (simp add: analyzeCode_def ex_deleted_def)
  note t = one_fetch_per_file_entry [of "''a.ts''" ex_world "[ex_deleted, ex_file]" ex_pr]
  from t have h: "fileCache ''a.ts'' = Some v \<Longrightarrow> v \<noteq> [] \<Longrightarrow>
      fetch_cached ex_world ex_pr ''a.ts'' tr fileCache = (tr, fileCache)" for v tr fileCache
    by blast
  have hit: "fetch_cached ex_world ex_pr ''a.ts'' [] [''a.ts'' \<mapsto> ''const x = 42;''] =
     ([], [''a.ts'' \<mapsto> ''const x = 42;''])"
    by (rule h [of _ "''const x = 42;''"]) simp_all
  have d: "distinct (map to (filter reviewable [ex_deleted, ex_file]))"
    by (simp only: f) simp
  have n: "length (filter (fetches ''a.ts'') (fst (analyzeCode ex_world [] [ex_deleted, ex_file] ex_pr))) = 1"
    by (simp add: a analyzeCode_example [of "[]", simplified])
  from d n hit show ?thesis by simp
qed

section \<open>Deleted files are not reviewed\<close>

lemma flatMap_paths:
  "flatMap (createComment_item f) xs = Inr cs \<Longrightarrow> c \<in> set cs \<Longrightarrow>
   to f = Some (path c) \<and> path c \<noteq> []"
proof (induction xs arbitrary: cs)
  case Nil
  then show ?case by simp
next
  case (Cons x xs)
  from Cons.prems(1) obtain ys zs where
    ys: "createComment_item f x = Inr ys" and zs: "flatMap (createComment_item f) xs = Inr zs"
    and cs: "cs = ys @ zs"
    by (auto split: sum.splits)
  from Cons.prems(2) cs consider "c \<in> set ys" | "c \<in> set zs"
    by auto
  then show ?case
  proof cases
    case 1
    with ys show ?thesis
      by (auto simp add: createComment_item_def falsy_str_def split: if_splits sum.splits option.splits)
  next
    case 2
    with zs Cons.IH show ?thesis by blast
  qed
qed

lemma createComment_paths:
  "createComment f chunk r = Inr cs \<Longrightarrow> c \<in> set cs \<Longrightarrow> to f = Some (path c) \<and> path c \<noteq> []"
  by (cases r) (auto simp add: createComment_def dest: flatMap_paths)

lemma analyzeCode_chunks_paths:
  "analyzeCode_chunks w f prDetails fullFile cs tr comments = (tr', Inr comments') \<Longrightarrow>
   c \<in> set comments' \<Longrightarrow> c \<in> set comments \<or> (to f = Some (path c) \<and> path c \<noteq> [])"
proof (induction cs arbitrary: tr comments)
  case Nil
  then show ?case by simp
next
  case (Cons chunk rest)
  obtain tr1 r where ai: "getAIResponse w tr (createPrompt f chunk prDetails fullFile) = (tr1, r)"
    by (cases "getAIResponse w tr (createPrompt f chunk prDetails fullFile)")
  show ?case
  proof (cases "\<exists>j. r = Some j \<and> truthy j")
    case False
    with Cons.prems ai have "analyzeCode_chunks w f prDetails fullFile rest tr1 comments = (tr', Inr comments')"
      by (auto split: option.splits)
    with Cons.IH Cons.prems(2) show ?thesis by blast
  next
    case True
    then obtain j where j: "r = Some j" "truthy j" by blast
    with Cons.prems ai obtain new where
      new: "createComment f chunk j = Inr new"
      and rest: "analyzeCode_chunks w f prDetails fullFile rest tr1 (comments @ new) = (tr', Inr comments')"
      by (auto split: sum.splits)
    from Cons.IH [OF rest Cons.prems(2)] have "c \<in> set (comments @ new) \<or> (to f = Some (path c) \<and> path c \<noteq> [])" .
    with createComment_paths [OF new, of c] show ?thesis by auto
  qed
qed

lemma analyzeCode_files_paths:
  "analyzeCode_files w prDetails files tr comments fileCache = (tr', Inr comments') \<Longrightarrow>
   c \<in> set comments' \<Longrightarrow>
   c \<in> set comments \<or> (\<exists>f\<in>set files. reviewable f \<and> to f = Some (path c))"
proof (induction files arbitrary: tr comments fileCache)
  case Nil
  then show ?case by simp
next
  case (Cons f rest)
  show ?case
  proof (cases "reviewable f")
    case False
    with Cons.prems have "analyzeCode_files w prDetails rest tr comments fileCache = (tr', Inr comments')"
      by (auto simp add: reviewable_def split: if_splits)
    with Cons.IH Cons.prems(2) show ?thesis by fastforce
  next
    case True
    obtain tr1 fc1 where fc: "fetch_cached w prDetails (the (to f)) tr fileCache = (tr1, fc1)"
      by (cases "fetch_cached w prDetails (the (to f)) tr fileCache")
    obtain tr2 res where ch:
      "analyzeCode_chunks w f prDetails (cached_text w (the (to f)) (fileCache_get fc1 (the (to f))))
         (chunks f) tr1 comments = (tr2, res)"
      by (cases "analyzeCode_chunks w f prDetails (cached_text w (the (to f)) (fileCache_get fc1 (the (to f))))
         (chunks f) tr1 comments")
    from True Cons.prems(1) fc ch obtain mid where
      mid: "res = Inr mid"
      and rest: "analyzeCode_files w prDetails rest tr2 mid fc1 = (tr', Inr comments')"
      by (auto simp add: reviewable_def split: sum.splits)
    from Cons.IH [OF rest Cons.prems(2)]
    have "c \<in> set mid \<or> (\<exists>f\<in>set rest. reviewable f \<and> to f = Some (path c))" .
    moreover have "c \<in> set mid \<Longrightarrow> c \<in> set comments \<or> (to f = Some (path c) \<and> path c \<noteq> [])"
      using analyzeCode_chunks_paths [of w f prDetails _ "chunks f" tr1 comments tr2 mid c] ch mid by simp
    ultimately show ?thesis
      using True by auto
  qed
qed

lemma analyzeCode_files_skips:
  "analyzeCode_files w prDetails files tr comments fileCache =
   analyzeCode_files w prDetails (filter reviewable files) tr comments fileCache"
proof (induction files arbitrary: tr comments fileCache)
  case Nil
  show ?case by simp
next
  case (Cons f rest)
  show ?case
  proof (cases "reviewable f")
    case False
    then show ?thesis
      using Cons.IH by (auto simp add: reviewable_def)
  next
    case True
    then have "to f \<noteq> Some ''/dev/null''" "\<not> falsy_str (to f)"
      by (simp_all add: reviewable_def)
    then show ?thesis
      using True Cons.IH by (simp split: prod.splits sum.splits)
  qed
qed

lemma reviewable_path: "reviewable f \<Longrightarrow> to f = Some p \<Longrightarrow> p \<noteq> ''/dev/null'' \<and> p \<noteq> []"
  by (auto simp add: reviewable_def falsy_str_def)

lemma analyzeCode_paths:
  assumes "analyzeCode w tr files prDetails = (tr', Inr comments)" and "c \<in> set comments"
  shows "path c \<noteq> ''/dev/null'' \<and> path c \<noteq> [] \<and> (\<exists>f\<in>set files. reviewable f \<and> to f = Some (path c))"
proof -
  have ex: "\<exists>f\<in>set files. reviewable f \<and> to f = Some (path c)"
    using assms analyzeCode_files_paths [of w prDetails files tr "[]" Map.empty tr' comments c]
    by (simp add: analyzeCode_def)
  then obtain f where "reviewable f" "to f = Some (path c)" by blast
  then have "path c \<noteq> ''/dev/null'' \<and> path c \<noteq> []"
    by (rule reviewable_path)
  with ex show ?thesis by simp
qed

text \<open>
  C6. \<open>analyzeCode\<close> does for a list of file changes exactly what it does for the list
  without the changes whose target is absent, empty or the deletion sentinel: the same
  requests, the same prompts, the same comments. Every comment it returns carries the
  target path of a file change that is none of these, and so does every comment of a
  review that a run submits: none has the path \<open>/dev/null\<close>.
\<close>

theorem deleted_files_never_reviewed:
  "analyzeCode w tr files prDetails = analyzeCode w tr (filter reviewable files) prDetails \<and>
   (\<forall>tr' comments c. analyzeCode w tr files prDetails = (tr', Inr comments) \<longrightarrow> c \<in> set comments \<longrightarrow>
      path c \<noteq> ''/dev/null'' \<and> path c \<noteq> [] \<and> (\<exists>f\<in>set files. reviewable f \<and> to f = Some (path c))) \<and>
   (\<forall>o' r n cs e c. CreateReview o' r n cs e \<in> set (fst (run w)) \<longrightarrow> c \<in> set cs \<longrightarrow>
      path c \<noteq> ''/dev/null'' \<and> path c \<noteq> [])"
proof (intro conjI)
  show "analyzeCode w tr files prDetails = analyzeCode w tr (filter reviewable files) prDetails"
    unfolding analyzeCode_def by (rule analyzeCode_files_skips)
next
  show "\<forall>tr' comments c. analyzeCode w tr files prDetails = (tr', Inr comments) \<longrightarrow> c \<in> set comments \<longrightarrow>
      path c \<noteq> ''/dev/null'' \<and> path c \<noteq> [] \<and> (\<exists>f\<in>set files. reviewable f \<and> to f = Some (path c))"
  proof (intro allI impI)
    fix tr' comments c
    assume "analyzeCode w tr files prDetails = (tr', Inr comments)" and "c \<in> set comments"
    then show "path c \<noteq> ''/dev/null'' \<and> path c \<noteq> [] \<and>
        (\<exists>f\<in>set files. reviewable f \<and> to f = Some (path c))"
      by (rule analyzeCode_paths)
  qed
next
  show "\<forall>o' r n cs e c. CreateReview o' r n cs e \<in> set (fst (run w)) \<longrightarrow> c \<in> set cs \<longrightarrow>
      path c \<noteq> ''/dev/null'' \<and> path c \<noteq> []"
  proof (intro allI impI)
    fix o' r n cs e c
    assume "CreateReview o' r n cs e \<in> set (fst (run w))" and c: "c \<in> set cs"
    then obtain tr1 tr2 fs p where "analyzeCode w tr2 fs p = (tr1, Inr cs)"
      using submitted_comments by blast
    then have "path c \<noteq> ''/dev/null'' \<and> path c \<noteq> [] \<and>
        (\<exists>f\<in>set fs. reviewable f \<and> to f = Some (path c))"
      using c by (rule analyzeCode_paths)
    then show "path c \<noteq> ''/dev/null'' \<and> path c \<noteq> []"
      by simp
  qed
qed

theorem deleted_files_never_reviewed_witness:
  "filter reviewable [ex_deleted, ex_no_target, ex_file] = [ex_file] \<and>
   analyzeCode ex_world [] [ex_deleted, ex_no_target, ex_file] ex_pr =
     ([GetContent ''octo'' ''demo'' ''a.ts'' ''c0ffee'',
       ChatCompletion (createPrompt ex_file ex_chunk ex_pr ''const x = 42;'')],
      Inr [ex_comment]) \<and>
   CreateReview ''octo'' ''demo'' 7 [ex_comment] ''COMMENT'' \<in> set (fst (run ex_world)) \<and>
   path ex_comment = ''a.ts''"
proof -
  have f: "filter reviewable [ex_deleted, ex_no_target, ex_file] = [ex_file]"
    by (simp add: reviewable_def falsy_str_def ex_deleted_def ex_no_target_def ex_file_def)
  show ?thesis
    using deleted_files_never_reviewed [of ex_world "[]" "[ex_deleted, ex_no_target, ex_file]" ex_pr] f
      analyzeCode_example [of "[]"]
    by (simp add: ex_comment_def run_example)
qed

section \<open>The review submitter\<close>

text \<open>
  C7. The requests of a run that create a review are: none when \<open>main\<close> returns early,
  fails, or collects no comment; and exactly one, with all the collected comments and the
  event \<open>COMMENT\<close>, when it collects some. With no comment the run ends with status 0.
\<close>

theorem review_submitted_once:
  "filter is_CreateReview (fst (run w)) =
     (case main_review w [] of
        (tr, Inr (Some (prDetails, comments))) \<Rightarrow>
          if comments = [] then []
          else [CreateReview (owner prDetails) (repo prDetails) (pull_number prDetails) comments ''COMMENT'']
      | _ \<Rightarrow> []) \<and>
   (\<forall>tr prDetails. main_review w [] = (tr, Inr (Some (prDetails, []))) \<longrightarrow> run w = (tr, 0))"
proof (rule conjI)
  show "filter is_CreateReview (fst (run w)) =
     (case main_review w [] of
        (tr, Inr (Some (prDetails, comments))) \<Rightarrow>
          if comments = [] then []
          else [CreateReview (owner prDetails) (repo prDetails) (pull_number prDetails) comments ''COMMENT'']
      | _ \<Rightarrow> [])"
    by (rule run_create_review_events)
next
  show "\<forall>tr prDetails. main_review w [] = (tr, Inr (Some (prDetails, []))) \<longrightarrow> run w = (tr, 0)"
    by (simp add: run_def main_def)
qed

theorem review_submitted_once_witness:
  "filter is_CreateReview (fst (run ex_world)) = [CreateReview ''octo'' ''demo'' 7 [ex_comment] ''COMMENT''] \<and>
   filter is_CreateReview (fst (run ex_world_no_findings)) = [] \<and>
   run ex_world_no_findings =
     ([ReadEvent, PullsGet ''octo'' ''demo'' 7, ReadEvent, PullsGetDiff ''octo'' ''demo'' 7,
       GetContent ''octo'' ''demo'' ''a.ts'' ''c0ffee'',
       ChatCompletion (createPrompt ex_file ex_chunk ex_pr ''const x = 42;'')], 0)"
  using review_submitted_once [of ex_world] review_submitted_once [of ex_world_no_findings]
  by (simp add: main_review_example main_review_no_findings_example ex_pr_def ex_comment_def)

end
